theory Spec2Isabelle
  imports Main
begin

section \<open>Data model\<close>

text \<open>
  The structs of the service (the polling version of \<open>main.go\<close>), as records. Go's \<open>int\<close>
  is modelled as \<open>int\<close>: the program compares, copies and prints check IDs and never does
  arithmetic on them, so no claim depends on the 64-bit range. A slice is a list (a nil
  slice and an empty slice are both \<open>[]\<close>; the code only reads lengths and elements).
  Field names that two structs share are told apart by the record's name
  (\<open>MaintenanceSchedule.Description\<close>, \<open>MaintenanceScheduleUpdate.Description\<close>).
\<close>

record Env =
  apiKey :: string
  maintenanceID :: int
  pollInterval :: int
  metricsPort :: string

text \<open>The anonymous struct of the field \<open>Checks\<close> of \<open>MaintenanceSchedule\<close>.\<close>

record MaintenanceChecks =
  Uptime :: "int list"
  Tms :: "int list"

record MaintenanceSchedule =
  ID :: int
  Description :: string
  From :: int
  To :: int
  Duration :: int
  Durationunit :: string
  Recurrencetype :: string
  Repeatevery :: int
  Dayofweekinmonth :: int
  Effectiveto :: int
  Checks :: MaintenanceChecks

record PingdomMaintenanceSchedule =
  Maintenance :: MaintenanceSchedule

record MaintenanceScheduleUpdate =
  Description :: string
  From :: int
  To :: int
  Recurrencetype :: string
  Repeatevery :: int
  Effectiveto :: int
  Uptimeids :: string
  Tmsids :: string

text \<open>The anonymous element struct of \<open>PingdomChecks.Checks\<close> and the struct of its \<open>Counts\<close>.\<close>

record PingdomCheck =
  ID :: int
  Created :: int
  Name :: string
  Hostname :: string
  Resolution :: int
  Type :: string
  Ipv6 :: bool
  VerifyCertificate :: bool
  Lasterrortime :: int
  Lasttesttime :: int
  Lastresponsetime :: int
  Status :: string
  Maintenanceids :: "string list"

record PingdomCounts =
  Total :: int
  Limited :: int
  Filtered :: int

record PingdomChecks =
  Checks :: "PingdomCheck list"
  Counts :: PingdomCounts

text \<open>\<open>m.Maintenance.Checks.Uptime\<close> read, and the assignment \<open>m.Maintenance.Checks.Uptime = u\<close>.\<close>

definition uptimeOf :: "PingdomMaintenanceSchedule \<Rightarrow> int list" where
  "uptimeOf m = Uptime (MaintenanceSchedule.Checks (Maintenance m))"

definition tmsOf :: "PingdomMaintenanceSchedule \<Rightarrow> int list" where
  "tmsOf m = Tms (MaintenanceSchedule.Checks (Maintenance m))"

definition assignUptime :: "PingdomMaintenanceSchedule \<Rightarrow> int list \<Rightarrow> PingdomMaintenanceSchedule" where
  "assignUptime m u =
     m\<lparr>Maintenance := (Maintenance m)
          \<lparr>MaintenanceSchedule.Checks := (MaintenanceSchedule.Checks (Maintenance m))\<lparr>Uptime := u\<rparr>\<rparr>\<rparr>"

section \<open>The reconciler\<close>

subsection \<open>\<open>compareSlice\<close> and \<open>checkMaintenanceSchedule\<close> of the polling service\<close>

text \<open>
  \<open>for i, v := range a { if v != b[i] { return false } }; return true\<close>: the loop over
  \<open>a\<close>, with the running index \<open>i\<close>. \<open>compareSlice\<close> enters it only when both lengths are
  equal, so \<open>b[i]\<close> is always in range and Go's index panic cannot happen.
\<close>

primrec compareSlice_range :: "int list \<Rightarrow> nat \<Rightarrow> int list \<Rightarrow> bool" where
  "compareSlice_range [] i b = True"
| "compareSlice_range (v # vs) i b =
     (if v \<noteq> b ! i then False else compareSlice_range vs (Suc i) b)"

definition compareSlice :: "int list \<Rightarrow> int list \<Rightarrow> bool" where
  "compareSlice a b =
     (if length a \<noteq> length b then False else compareSlice_range a 0 b)"

definition checkMaintenanceSchedule ::
  "PingdomMaintenanceSchedule \<Rightarrow> int list \<Rightarrow> bool \<times> PingdomMaintenanceSchedule" where
  "checkMaintenanceSchedule m u =
     (if \<not> compareSlice (uptimeOf m) u then (False, assignUptime m u) else (True, m))"

subsection \<open>\<open>contains\<close> and \<open>checkMaintenanceSchedule\<close> of the one-shot \<open>src/main.go\<close>\<close>

primrec contains :: "int list \<Rightarrow> int \<Rightarrow> bool" where
  "contains [] searchInt = False"
| "contains (v # vs) searchInt = (if v = searchInt then True else contains vs searchInt)"

text \<open>
  The loop \<open>for _, check := range u\<close> over the pair of locals \<open>(upToDate, m)\<close>: a check that
  the window does not contain clears \<open>upToDate\<close> and is appended to the window's list.
\<close>

primrec checkMaintenanceSchedule_main_loop ::
  "int list \<Rightarrow> bool \<times> PingdomMaintenanceSchedule \<Rightarrow> bool \<times> PingdomMaintenanceSchedule" where
  "checkMaintenanceSchedule_main_loop [] st = st"
| "checkMaintenanceSchedule_main_loop (check # rest) st =
     checkMaintenanceSchedule_main_loop rest
       (if \<not> contains (uptimeOf (snd st)) check
        then (False, assignUptime (snd st) (uptimeOf (snd st) @ [check]))
        else st)"

definition checkMaintenanceSchedule_main ::
  "PingdomMaintenanceSchedule \<Rightarrow> int list \<Rightarrow> bool \<times> PingdomMaintenanceSchedule" where
  "checkMaintenanceSchedule_main m u = checkMaintenanceSchedule_main_loop u (True, m)"

section \<open>Library functions the service calls\<close>

subsection \<open>\<open>strconv.Itoa\<close>, \<open>strconv.Atoi\<close> and \<open>strings.Join\<close>\<close>

text \<open>
  Go's standard library is not part of the repository; the functions the service calls are
  modelled by what they compute. \<open>strconv.Itoa\<close> is the decimal text of an integer: the
  digits without leading zeros, after a minus sign when it is negative.
\<close>

definition digitChar :: "nat \<Rightarrow> char" where
  "digitChar d = ''0123456789'' ! d"

function formatBits :: "nat \<Rightarrow> string" where
  "formatBits u = (if u < 10 then [digitChar u] else formatBits (u div 10) @ [digitChar (u mod 10)])"
  by pat_completeness auto
termination
  by (relation "measure id") auto

declare formatBits.simps [simp del]

definition Itoa :: "int \<Rightarrow> string" where
  "Itoa i = (if i < 0 then CHR ''-'' # formatBits (nat (- i)) else formatBits (nat i))"

text \<open>
  \<open>strconv.Atoi\<close> on a 64-bit platform (the build is \<open>GOARCH=amd64\<close>): an optional sign
  \<open>+\<close> or \<open>-\<close>, then one or more decimal digits and nothing else; the value must lie in
  \<open>[-2^63, 2^63 - 1]\<close>. Every other text (the empty text too) is an error, here \<open>None\<close>.
\<close>

definition isDigit :: "char \<Rightarrow> bool" where
  "isDigit c = (c \<in> set ''0123456789'')"

definition digitVal :: "char \<Rightarrow> int" where
  "digitVal c = int (of_char c) - 48"

definition parseDigits :: "string \<Rightarrow> int" where
  "parseDigits ds = foldl (\<lambda>n ch. n * 10 + digitVal ch) 0 ds"

definition Atoi :: "string \<Rightarrow> int option" where
  "Atoi s =
     (case s of
        [] \<Rightarrow> None
      | c # cs \<Rightarrow>
          (let ds = (if c = CHR ''-'' \<or> c = CHR ''+'' then cs else s);
               n = parseDigits ds;
               v = (if c = CHR ''-'' then - n else n)
           in if ds = [] \<or> \<not> list_all isDigit ds then None
              else if v < - (2 ^ 63) \<or> 2 ^ 63 - 1 < v then None
              else Some v))"

text \<open>
  \<open>strings.Join(elems, sep)\<close>: no element gives the empty text, one element gives itself,
  otherwise the first element and then, for each later one, the separator and the element.
\<close>

fun strings_Join :: "string list \<Rightarrow> string \<Rightarrow> string" where
  "strings_Join [] sep = []"
| "strings_Join [e] sep = e"
| "strings_Join (e # es) sep = foldl (\<lambda>b s. b @ sep @ s) e es"

subsection \<open>\<open>time.Now\<close>, \<open>time.Date\<close> and \<open>Unix\<close>\<close>

text \<open>
  Of \<open>t := time.Now()\<close> the service reads \<open>t.Year()\<close>, \<open>t.Month()\<close> and \<open>t.Day()\<close>: the
  calendar date of the process's clock, in the process's local time zone.
\<close>

record CivilDate =
  Year :: int
  Month :: int
  Day :: int

text \<open>
  \<open>time.Date(year, month, day, hour, min, sec, 0, time.UTC).Unix()\<close>, after the library's
  source: month, second, minute and hour are normalised (\<open>norm\<close>, overflowing into the
  year and the day); then come the days since the library's absolute epoch (whole 400-,
  100- and 4-year cycles, then single years), the days before the month, the leap day and
  the days before \<open>day\<close> (a \<open>day\<close> past the month's end runs on into the next month, which
  is how \<open>t.Day()+1\<close> is read), and the shift from the absolute epoch to 1970. The
  nanosecond argument is 0 in both calls and is left out. For the years a clock shows
  nothing here leaves the 64-bit range.
\<close>

definition norm :: "int \<Rightarrow> int \<Rightarrow> int \<Rightarrow> int \<times> int" where
  "norm hi lo base =
     (case (if lo < 0
            then (let n = (- lo - 1) div base + 1 in (hi - n, lo + n * base))
            else (hi, lo)) of
        (hi1, lo1) \<Rightarrow>
          if base \<le> lo1
          then (let n = lo1 div base in (hi1 + n, lo1 - n * base))
          else (hi1, lo1))"

definition absoluteZeroYear :: int where
  "absoluteZeroYear = - 292277022399"

definition absoluteToInternal :: int where
  "absoluteToInternal = - 9223371966579724800"

definition internalToUnix :: int where
  "internalToUnix = - 62135596800"

definition isLeap :: "int \<Rightarrow> bool" where
  "isLeap year = (year mod 4 = 0 \<and> (year mod 100 \<noteq> 0 \<or> year mod 400 = 0))"

definition daysBefore :: "int list" where
  "daysBefore = [0, 31, 59, 90, 120, 151, 181, 212, 243, 273, 304, 334, 365]"

definition daysSinceEpoch :: "int \<Rightarrow> int" where
  "daysSinceEpoch year =
     (let y = year - absoluteZeroYear;
          n400 = y div 400; y1 = y - 400 * n400;
          n100 = y1 div 100; y2 = y1 - 100 * n100;
          n4 = y2 div 4; y3 = y2 - 4 * n4
      in 146097 * n400 + 36524 * n100 + 1461 * n4 + 365 * y3)"

definition DateUnix :: "int \<Rightarrow> int \<Rightarrow> int \<Rightarrow> int \<Rightarrow> int \<Rightarrow> int \<Rightarrow> int" where
  "DateUnix year0 month0 day0 hour0 min0 sec0 =
     (case norm year0 (month0 - 1) 12 of (year, m) \<Rightarrow>
      case norm min0 sec0 60 of (min1, sec) \<Rightarrow>
      case norm hour0 min1 60 of (hour1, minute) \<Rightarrow>
      case norm day0 hour1 24 of (day, hour) \<Rightarrow>
        (let month = m + 1;
             d = daysSinceEpoch year + daysBefore ! nat (month - 1)
                   + (if isLeap year \<and> 3 \<le> month then 1 else 0) + (day - 1);
             secs = d * 86400 + (hour * 3600 + minute * 60 + sec)
         in secs + (absoluteToInternal + internalToUnix)))"

subsection \<open>Errors, HTTP exchanges, JSON\<close>

text \<open>
  A Go \<open>error\<close> carries a message; the constructor records which call produced it.
  \<open>client.Do(req)\<close> gives an error or a response; of a response the code reads the status
  code and the body, through \<open>ioutil.ReadAll\<close>, which returns the bytes read and possibly
  an error.
\<close>

datatype error =
    TransportError string
  | StatusError string
  | DecodeError string
  | EncodeError string
  | ReadError string

primrec Error :: "error \<Rightarrow> string" where
  "Error (TransportError msg) = msg"
| "Error (StatusError msg) = msg"
| "Error (DecodeError msg) = msg"
| "Error (EncodeError msg) = msg"
| "Error (ReadError msg) = msg"

record Response =
  StatusCode :: int
  BodyData :: string
  BodyErr :: "error option"

text \<open>
  A JSON object as \<open>json.Marshal\<close> writes a struct: the fields in declaration order, each
  under the key of its \<open>json\<close> tag. The bytes (quoting and escaping) are not modelled.
\<close>

datatype json = JString string | JNumber int

type_synonym jsonObject = "(string \<times> json) list"

text \<open>
  \<open>json.Unmarshal\<close> of a response body into each of the two structs is a parameter of the
  model: a function from the body to the decoded struct or the decoder's error.
\<close>

record Decoders =
  UnmarshalChecks :: "string \<Rightarrow> error + PingdomChecks"
  UnmarshalSchedule :: "string \<Rightarrow> error + PingdomMaintenanceSchedule"

text \<open>A request as sent: \<open>GET url authorization\<close>, \<open>PUT url authorization contentType body\<close>.\<close>

datatype Request =
    GET string string
  | PUT string string string jsonObject

text \<open>
  A line of the log: a formatted message (without the logger's time stamp), or one of the
  two lines that print the marshalled request and the response of a successful update.
\<close>

datatype LogEntry =
    Log string
  | LogPUT jsonObject
  | LogRESPONSE string

text \<open>
  The process state the service changes: the two gauges (Go stores \<open>float64\<close>; the code sets
  them to 0 or to a length only), the log, and the requests sent so far.
\<close>

record State =
  slaTotal :: int
  slaMaintenance :: int
  logged :: "LogEntry list"
  sent :: "Request list"

section \<open>The provider client\<close>

subsection \<open>\<open>intSliceToString\<close>\<close>

text \<open>
  The loop \<open>for i := range v\<close> appends \<open>strconv.Itoa(v[i])\<close> to \<open>valuesText\<close>; the result is
  \<open>strings.Join(valuesText, ",")\<close>.
\<close>

primrec intSliceToString_loop :: "int list \<Rightarrow> string list \<Rightarrow> string list" where
  "intSliceToString_loop [] valuesText = valuesText"
| "intSliceToString_loop (number # rest) valuesText =
     intSliceToString_loop rest (valuesText @ [Itoa number])"

definition intSliceToString :: "int list \<Rightarrow> string" where
  "intSliceToString v = strings_Join (intSliceToString_loop v []) '',''"

subsection \<open>The two fetches\<close>

definition statusOK :: "Response \<Rightarrow> bool" where
  "statusOK resp = (200 \<le> StatusCode resp \<and> StatusCode resp < 300)"

definition getPingdomChecks ::
  "Decoders \<Rightarrow> Env \<Rightarrow> error + Response \<Rightarrow> State \<Rightarrow> (error + PingdomChecks) \<times> State" where
  "getPingdomChecks js e do s =
     (let url = ''https://api.pingdom.com/api/3.1/checks?tags=sla'';
          bearer = ''Bearer '' @ apiKey e;
          s1 = s\<lparr>sent := sent s @ [GET url bearer]\<rparr>
      in case do of
           Inl err \<Rightarrow> (Inl err, s1)
         | Inr resp \<Rightarrow>
             if \<not> statusOK resp
             then (Inl (StatusError (''GET Pingdom checks responded with status code: ''
                                      @ Itoa (StatusCode resp))), s1)
             else (case UnmarshalChecks js (BodyData resp) of
                     Inl err \<Rightarrow> (Inl err, s1\<lparr>slaTotal := 0\<rparr>)
                   | Inr c \<Rightarrow> (Inr c, s1\<lparr>slaTotal := int (length (PingdomChecks.Checks c))\<rparr>)))"

definition maintenanceURL :: "Env \<Rightarrow> string" where
  "maintenanceURL e = ''https://api.pingdom.com/api/3.1/maintenance/'' @ Itoa (maintenanceID e)"

definition getPingdomMainenanceSchedule ::
  "Decoders \<Rightarrow> Env \<Rightarrow> error + Response \<Rightarrow> State
     \<Rightarrow> (error + PingdomMaintenanceSchedule) \<times> State" where
  "getPingdomMainenanceSchedule js e do s =
     (let url = maintenanceURL e;
          bearer = ''Bearer '' @ apiKey e;
          s1 = s\<lparr>sent := sent s @ [GET url bearer]\<rparr>
      in case do of
           Inl err \<Rightarrow> (Inl err, s1\<lparr>slaMaintenance := 0\<rparr>)
         | Inr resp \<Rightarrow>
             if \<not> statusOK resp
             then (Inl (StatusError (''GET Pingdom maintenance responded with status code: ''
                                      @ Itoa (StatusCode resp))), s1)
             else (case UnmarshalSchedule js (BodyData resp) of
                     Inl err \<Rightarrow> (Inl err, s1\<lparr>slaMaintenance := 0\<rparr>)
                   | Inr m \<Rightarrow> (Inr m, s1\<lparr>slaMaintenance := int (length (uptimeOf m))\<rparr>)))"

subsection \<open>The update\<close>

text \<open>The struct literal \<open>schedule := MaintenanceScheduleUpdate{...}\<close>, with \<open>t = time.Now()\<close>.\<close>

definition scheduleUpdate :: "CivilDate \<Rightarrow> PingdomMaintenanceSchedule \<Rightarrow> MaintenanceScheduleUpdate" where
  "scheduleUpdate t m =
     (let from = DateUnix (Year t) (Month t) (Day t) 15 0 0;
          to = DateUnix (Year t) (Month t) (Day t + 1) 6 0 0
      in \<lparr>MaintenanceScheduleUpdate.Description = MaintenanceSchedule.Description (Maintenance m),
          MaintenanceScheduleUpdate.From = from,
          MaintenanceScheduleUpdate.To = to,
          MaintenanceScheduleUpdate.Recurrencetype = MaintenanceSchedule.Recurrencetype (Maintenance m),
          MaintenanceScheduleUpdate.Repeatevery = MaintenanceSchedule.Repeatevery (Maintenance m),
          MaintenanceScheduleUpdate.Effectiveto = MaintenanceSchedule.Effectiveto (Maintenance m),
          Uptimeids = intSliceToString (Uptime (MaintenanceSchedule.Checks (Maintenance m))),
          Tmsids = intSliceToString (Tms (MaintenanceSchedule.Checks (Maintenance m)))\<rparr>)"

text \<open>
  \<open>json.Marshal(schedule)\<close>: the eight tagged fields. For a struct of strings and integers
  it has no error to return; the result type keeps the branch the caller tests.
\<close>

definition json_Marshal :: "MaintenanceScheduleUpdate \<Rightarrow> error + jsonObject" where
  "json_Marshal schedule =
     Inr [(''description'', JString (MaintenanceScheduleUpdate.Description schedule)),
          (''from'', JNumber (MaintenanceScheduleUpdate.From schedule)),
          (''to'', JNumber (MaintenanceScheduleUpdate.To schedule)),
          (''recurrencetype'', JString (MaintenanceScheduleUpdate.Recurrencetype schedule)),
          (''repeatevery'', JNumber (MaintenanceScheduleUpdate.Repeatevery schedule)),
          (''effectiveto'', JNumber (MaintenanceScheduleUpdate.Effectiveto schedule)),
          (''uptimeids'', JString (Uptimeids schedule)),
          (''tmsids'', JString (Tmsids schedule))]"

definition updatePingdomMaintenanceSchedule ::
  "Env \<Rightarrow> CivilDate \<Rightarrow> PingdomMaintenanceSchedule \<Rightarrow> error + Response \<Rightarrow> State
     \<Rightarrow> error option \<times> State" where
  "updatePingdomMaintenanceSchedule e t m do s =
     (let schedule = scheduleUpdate t m;
          url = maintenanceURL e;
          bearer = ''Bearer '' @ apiKey e
      in case json_Marshal schedule of
           Inl err \<Rightarrow> (Some err, s)
         | Inr js \<Rightarrow>
             (let s1 = s\<lparr>sent := sent s @ [PUT url bearer ''application/json'' js]\<rparr>
              in case do of
                   Inl err \<Rightarrow> (Some err, s1)
                 | Inr resp \<Rightarrow>
                     if \<not> statusOK resp
                     then (Some (StatusError
                             (''UPDATE Pingdom maintenance responded with status code: ''
                                @ Itoa (StatusCode resp))), s1)
                     else (case BodyErr resp of
                             Some err \<Rightarrow> (Some err, s1)
                           | None \<Rightarrow>
                               (None, s1\<lparr>logged := logged s1
                                          @ [LogPUT js, LogRESPONSE (BodyData resp)]\<rparr>))))"

subsection \<open>\<open>getUptimeIds\<close>\<close>

primrec getUptimeIds_loop :: "PingdomCheck list \<Rightarrow> int list \<Rightarrow> int list" where
  "getUptimeIds_loop [] i = i"
| "getUptimeIds_loop (check # rest) i = getUptimeIds_loop rest (i @ [PingdomCheck.ID check])"

definition getUptimeIds :: "PingdomChecks \<Rightarrow> int list" where
  "getUptimeIds c = getUptimeIds_loop (PingdomChecks.Checks c) []"

section \<open>The scheduler\<close>

text \<open>
  What the outside world does during one tick: the date \<open>time.Now()\<close> shows, and the outcome
  of \<open>client.Do\<close> for each request the tick can send (the checks, the window, the update,
  the second fetch of the window). A tick reads only those of the requests it sends.
\<close>

record Tick =
  clock :: CivilDate
  checksDo :: "error + Response"
  scheduleDo :: "error + Response"
  updateDo :: "error + Response"
  refetchDo :: "error + Response"

definition logPrintf :: "string \<Rightarrow> State \<Rightarrow> State" where
  "logPrintf msg s = s\<lparr>logged := logged s @ [Log msg]\<rparr>"

text \<open>
  The body of \<open>case <-ticker:\<close>. Each \<open>break\<close> leaves the \<open>select\<close> statement, which is the
  whole body of the \<open>for\<close> loop: the tick ends and the loop waits for the next timer fire.
\<close>

definition tick :: "Decoders \<Rightarrow> Env \<Rightarrow> Tick \<Rightarrow> State \<Rightarrow> State" where
  "tick js e w s =
     (case getPingdomChecks js e (checksDo w) s of
        (Inl err, s1) \<Rightarrow> logPrintf (CHR 0x09 # ''Pingdom checks: [ERROR] - '' @ Error err) s1
      | (Inr c, s1) \<Rightarrow>
          (let u = getUptimeIds c
           in case getPingdomMainenanceSchedule js e (scheduleDo w) s1 of
                (Inl err, s2) \<Rightarrow>
                  logPrintf (CHR 0x09 # ''Pingdom maintenance: [ERROR] - '' @ Error err) s2
              | (Inr m, s2) \<Rightarrow>
                  (case checkMaintenanceSchedule m u of
                     (upToDate, schedule) \<Rightarrow>
                       if \<not> upToDate
                       then (case updatePingdomMaintenanceSchedule e (clock w) schedule (updateDo w) s2 of
                               (Some err, s3) \<Rightarrow>
                                 logPrintf (CHR 0x09 # ''Pingdom update maintenance schedule: [ERROR] - ''
                                              @ Error err) s3
                             | (None, s3) \<Rightarrow> s3)
                       else (let s3 = logPrintf (CHR 0x09 # ''Maintenance schedule up to date'') s2
                             in snd (getPingdomMainenanceSchedule js e (refetchDo w) s3)))))"

text \<open>
  \<open>for { select { case <-ticker: ... } }\<close> has no exit. The loop is run over the timer
  fires seen so far, one \<open>Tick\<close> each, and gives the state after the last of them.
\<close>

primrec pollAPI_loop :: "Decoders \<Rightarrow> Env \<Rightarrow> Tick list \<Rightarrow> State \<Rightarrow> State" where
  "pollAPI_loop js e [] s = s"
| "pollAPI_loop js e (w # ws) s = pollAPI_loop js e ws (tick js e w s)"

text \<open>
  \<open>time.Second * time.Duration(e.pollInterval)\<close> is a 64-bit product of nanoseconds, and
  \<open>time.NewTicker\<close> panics when its argument is not positive; the loop starts otherwise.
\<close>

definition wrap64 :: "int \<Rightarrow> int" where
  "wrap64 x = (x + 2 ^ 63) mod 2 ^ 64 - 2 ^ 63"

datatype Panic = Panic string

definition pollAPI :: "Decoders \<Rightarrow> Env \<Rightarrow> Tick list \<Rightarrow> State \<Rightarrow> Panic + State" where
  "pollAPI js e ticks s =
     (if wrap64 (1000000000 * pollInterval e) \<le> 0
      then Inl (Panic ''non-positive interval for NewTicker'')
      else Inr (pollAPI_loop js e ticks s))"

section \<open>Bootstrap\<close>

text \<open>
  The process environment is a partial map from names to values; \<open>os.Getenv\<close> gives the
  empty text for a name that is not set. \<open>log.Fatalf\<close> prints its message and ends the
  process: \<open>newEnv\<close> returns the message then, and otherwise the \<open>Env\<close> with the two lines it
  logs.
\<close>

definition Getenv :: "(string \<rightharpoonup> string) \<Rightarrow> string \<Rightarrow> string" where
  "Getenv environ key = (case environ key of None \<Rightarrow> [] | Some v \<Rightarrow> v)"

definition getenvInt :: "(string \<rightharpoonup> string) \<Rightarrow> string \<Rightarrow> int" where
  "getenvInt environ key =
     (case Atoi (Getenv environ key) of None \<Rightarrow> 0 | Some v \<Rightarrow> v)"

datatype Fatal = Fatalf string

definition newEnv :: "string \<Rightarrow> int \<Rightarrow> int \<Rightarrow> string \<Rightarrow> Fatal + Env \<times> LogEntry list" where
  "newEnv apiKey0 maintenanceID0 pollInterval0 metricsPort0 =
     (if apiKey0 = [] then Inl (Fatalf ''Could not parse env API_KEY'')
      else if maintenanceID0 = 0 then Inl (Fatalf ''Could not parse env MAINTENANCE_ID'')
      else
        (let pollInterval1 = (if pollInterval0 = 0 then 300 else pollInterval0);
             metricsPort1 = (if metricsPort0 = [] then ''9600'' else metricsPort0);
             e = \<lparr>apiKey = apiKey0, maintenanceID = maintenanceID0,
                  pollInterval = pollInterval1, metricsPort = metricsPort1\<rparr>
         in Inr (e,
              [Log (CHR 0x09 # ''ps-pingdom-maintenance service started...''),
               Log (CHR 0x09 # ''Maintenance ID: '' @ Itoa (maintenanceID e)
                    @ CHR 0x09 # ''Poll Interval: '' @ Itoa (pollInterval e)
                    @ CHR 0x09 # ''Metrics port: '' @ metricsPort e @ [CHR 0x0A, CHR 0x0A])])))"

text \<open>The first statement of \<open>main\<close>: \<open>newEnv\<close> on the four environment variables.\<close>

definition main_newEnv :: "(string \<rightharpoonup> string) \<Rightarrow> Fatal + Env \<times> LogEntry list" where
  "main_newEnv environ =
     newEnv (Getenv environ ''API_KEY'') (getenvInt environ ''MAINTENANCE_ID'')
            (getenvInt environ ''POLL_INTERVAL'') (Getenv environ ''METRICS_PORT'')"

section \<open>Concrete values for the examples\<close>

definition exampleWindow :: "int list \<Rightarrow> int list \<Rightarrow> PingdomMaintenanceSchedule" where
  "exampleWindow up tms =
     \<lparr>Maintenance =
        \<lparr>MaintenanceSchedule.ID = 4711,
         MaintenanceSchedule.Description = ''sla'',
         MaintenanceSchedule.From = 1577890800,
         MaintenanceSchedule.To = 1577944800,
         Duration = 15,
         Durationunit = ''hour'',
         MaintenanceSchedule.Recurrencetype = ''day'',
         MaintenanceSchedule.Repeatevery = 1,
         Dayofweekinmonth = 0,
         MaintenanceSchedule.Effectiveto = 1893456000,
         MaintenanceSchedule.Checks = \<lparr>Uptime = up, Tms = tms\<rparr>\<rparr>\<rparr>"

definition exampleEnv :: Env where
  "exampleEnv = \<lparr>apiKey = ''secret'', maintenanceID = 4711, pollInterval = 300, metricsPort = ''9600''\<rparr>"

definition exampleCheck :: "int \<Rightarrow> PingdomCheck" where
  "exampleCheck i =
     \<lparr>PingdomCheck.ID = i, Created = 1577836800, Name = ''web'', Hostname = ''example.org'',
      Resolution = 1, Type = ''http'', Ipv6 = False, VerifyCertificate = True,
      Lasterrortime = 0, Lasttesttime = 1577890000, Lastresponsetime = 120, Status = ''up'',
      Maintenanceids = []\<rparr>"

definition exampleChecks :: "int list \<Rightarrow> PingdomChecks" where
  "exampleChecks ids =
     \<lparr>PingdomChecks.Checks = map exampleCheck ids,
      Counts = \<lparr>Total = int (length ids), Limited = int (length ids), Filtered = int (length ids)\<rparr>\<rparr>"

text \<open>
  Decoders for the examples: the body \<open>checks\<close> decodes to the given checks, the body
  \<open>window\<close> to the given window, and every other body is a decode error.
\<close>

definition exampleDecoders :: "PingdomChecks \<Rightarrow> PingdomMaintenanceSchedule \<Rightarrow> Decoders" where
  "exampleDecoders c m =
     \<lparr>UnmarshalChecks =
        (\<lambda>body. if body = ''checks'' then Inr c else Inl (DecodeError ''unexpected end of JSON input'')),
      UnmarshalSchedule =
        (\<lambda>body. if body = ''window'' then Inr m else Inl (DecodeError ''unexpected end of JSON input''))\<rparr>"

definition respond :: "int \<Rightarrow> string \<Rightarrow> error + Response" where
  "respond code body = Inr \<lparr>StatusCode = code, BodyData = body, BodyErr = None\<rparr>"

definition exampleState :: "int \<Rightarrow> int \<Rightarrow> State" where
  "exampleState a b = \<lparr>slaTotal = a, slaMaintenance = b, logged = [], sent = []\<rparr>"

definition exampleTick ::
  "error + Response \<Rightarrow> error + Response \<Rightarrow> error + Response \<Rightarrow> error + Response \<Rightarrow> Tick" where
  "exampleTick c m u r =
     \<lparr>clock = \<lparr>Year = 2026, Month = 12, Day = 31\<rparr>,
      checksDo = c, scheduleDo = m, updateDo = u, refetchDo = r\<rparr>"

definition driftDecoders :: Decoders where
  "driftDecoders = exampleDecoders (exampleChecks [10, 20, 30]) (exampleWindow [10, 20] [])"

definition syncedDecoders :: Decoders where
  "syncedDecoders = exampleDecoders (exampleChecks [10, 20, 30]) (exampleWindow [10, 20, 30] [])"

definition checksFailTick :: Tick where
  "checksFailTick = exampleTick (respond 500 []) (respond 200 ''window'') (respond 200 ''ok'')
                      (respond 200 ''window'')"

definition windowFailTick :: Tick where
  "windowFailTick = exampleTick (respond 200 ''checks'') (Inl (TransportError ''dial tcp: i/o timeout''))
                      (respond 200 ''ok'') (respond 200 ''window'')"

definition updateFailTick :: Tick where
  "updateFailTick = exampleTick (respond 200 ''checks'') (respond 200 ''window'') (respond 503 [])
                      (respond 200 ''window'')"

definition goodTick :: Tick where
  "goodTick = exampleTick (respond 200 ''checks'') (respond 200 ''window'') (respond 200 ''ok'')
                (respond 500 [])"

definition negativeIdEnviron :: "string \<rightharpoonup> string" where
  "negativeIdEnviron = [''API_KEY'' \<mapsto> ''secret'', ''MAINTENANCE_ID'' \<mapsto> ''-5'']"

definition exampleEnviron :: "string \<Rightarrow> string \<Rightarrow> string \<rightharpoonup> string" where
  "exampleEnviron key mid = [''API_KEY'' \<mapsto> key, ''MAINTENANCE_ID'' \<mapsto> mid]"

definition quietTick :: Tick where
  "quietTick = exampleTick (respond 200 ''checks'') (respond 200 ''window'') (respond 200 ''ok'')
                 (respond 200 ''window'')"

definition windowStatusTick :: Tick where
  "windowStatusTick = exampleTick (respond 200 ''checks'') (respond 500 []) (respond 200 ''ok'')
                        (respond 200 ''window'')"

text \<open>
  Decoders whose window changes between the two fetches of a tick: the body \<open>grown\<close>
  decodes to a window of four IDs.
\<close>

definition refreshDecoders :: Decoders where
  "refreshDecoders =
     \<lparr>UnmarshalChecks = UnmarshalChecks syncedDecoders,
      UnmarshalSchedule =
        (\<lambda>body. if body = ''grown'' then Inr (exampleWindow [10, 20, 30, 40] [])
                else UnmarshalSchedule syncedDecoders body)\<rparr>"

definition refreshTick :: Tick where
  "refreshTick = exampleTick (respond 200 ''checks'') (respond 200 ''window'') (respond 200 ''ok'')
                   (respond 200 ''grown'')"

definition refetchTransportTick :: Tick where
  "refetchTransportTick =
     exampleTick (respond 200 ''checks'') (respond 200 ''window'') (respond 200 ''ok'')
       (Inl (TransportError ''dial tcp: i/o timeout''))"

section \<open>Properties of the reconciler\<close>

lemma uptimeOf_assignUptime: "uptimeOf (assignUptime m u) = u"
  by (simp add: uptimeOf_def assignUptime_def)

lemma tmsOf_assignUptime: "tmsOf (assignUptime m u) = tmsOf m"
  by (simp add: tmsOf_def assignUptime_def)

lemma assignUptime_twice: "assignUptime (assignUptime m u) v = assignUptime m v"
  by (simp add: assignUptime_def)

lemma assignUptime_same: "assignUptime m (uptimeOf m) = m"
  by (simp add: assignUptime_def uptimeOf_def)

lemma assignUptime_eq_iff: "assignUptime m u = assignUptime m v \<longleftrightarrow> u = v"
proof
  assume "assignUptime m u = assignUptime m v"
  then have "uptimeOf (assignUptime m u) = uptimeOf (assignUptime m v)" by simp
  then show "u = v" by (simp add: uptimeOf_assignUptime)
qed simp

lemma uptimeOf_exampleWindow: "uptimeOf (exampleWindow up tms) = up"
  by (simp add: uptimeOf_def exampleWindow_def)

lemma tmsOf_exampleWindow: "tmsOf (exampleWindow up tms) = tms"
  by (simp add: tmsOf_def exampleWindow_def)

lemma compareSlice_range_nth:
  "compareSlice_range a i b \<longleftrightarrow> (\<forall>j<length a. a ! j = b ! (i + j))"
proof (induction a arbitrary: i)
  case Nil
  show ?case by simp
next
  case (Cons v vs)
  have "(\<forall>j<Suc (length vs). (v # vs) ! j = b ! (i + j)) \<longleftrightarrow>
        v = b ! i \<and> (\<forall>j<length vs. vs ! j = b ! (Suc i + j))"
    by (auto simp: less_Suc_eq_0_disj)
  with Cons.IH [of "Suc i"] show ?case by simp
qed

lemma compareSlice_positional:
  "compareSlice a b \<longleftrightarrow> length a = length b \<and> (\<forall>i<length b. a ! i = b ! i)"
  by (auto simp: compareSlice_def compareSlice_range_nth)

lemma compareSlice_eq: "compareSlice a b \<longleftrightarrow> a = b"
  by (auto simp: compareSlice_positional intro: nth_equalityI)

text \<open>
  C1. \<open>checkMaintenanceSchedule\<close> reports \<open>upToDate = true\<close> exactly when the window's uptime
  ID list and the desired sequence have the same length and the same element at every
  position (so the same IDs in another order are drift); when it reports \<open>false\<close>, the
  returned window's uptime ID list is the desired sequence.
\<close>

theorem C1_checkMaintenanceSchedule_positional:
  "(fst (checkMaintenanceSchedule m u) \<longleftrightarrow>
      length (uptimeOf m) = length u \<and> (\<forall>i<length u. uptimeOf m ! i = u ! i))
   \<and> (\<not> fst (checkMaintenanceSchedule m u) \<longrightarrow>
        uptimeOf (snd (checkMaintenanceSchedule m u)) = u)"
  by (simp add: checkMaintenanceSchedule_def compareSlice_positional uptimeOf_assignUptime)

theorem C1_witness:
  "\<not> fst (checkMaintenanceSchedule (exampleWindow [1, 2] []) [2, 1])
   \<and> uptimeOf (snd (checkMaintenanceSchedule (exampleWindow [1, 2] []) [2, 1])) = [2, 1]
   \<and> fst (checkMaintenanceSchedule (exampleWindow [1, 2] []) [1, 2])"
proof -
  let ?m = "exampleWindow [1, 2] []"
  have differ: "\<not> (length (uptimeOf ?m) = length [2, 1 :: int]
                  \<and> (\<forall>i<length [2, 1 :: int]. uptimeOf ?m ! i = [2, 1] ! i))"
  proof
    assume "length (uptimeOf ?m) = length [2, 1 :: int]
              \<and> (\<forall>i<length [2, 1 :: int]. uptimeOf ?m ! i = [2, 1] ! i)"
    then have "uptimeOf ?m ! 0 = [2, 1 :: int] ! 0" by simp
    then show False by (simp add: uptimeOf_exampleWindow)
  qed
  have drift: "\<not> fst (checkMaintenanceSchedule ?m [2, 1])"
    using C1_checkMaintenanceSchedule_positional [of ?m "[2, 1]"] differ by blast
  have replaced: "uptimeOf (snd (checkMaintenanceSchedule ?m [2, 1])) = [2, 1]"
    using C1_checkMaintenanceSchedule_positional [of ?m "[2, 1]"] drift by blast
  have same: "length (uptimeOf ?m) = length [1, 2 :: int]
                \<and> (\<forall>i<length [1, 2 :: int]. uptimeOf ?m ! i = [1, 2] ! i)"
    by (simp add: uptimeOf_exampleWindow)
  have "fst (checkMaintenanceSchedule ?m [1, 2])"
    using C1_checkMaintenanceSchedule_positional [of ?m "[1, 2]"] same by blast
  with drift replaced show ?thesis by simp
qed

text \<open>
  C7. The reconciler's output is a fixed point: run again on the window it returned, against
  the same desired sequence, \<open>checkMaintenanceSchedule\<close> reports \<open>upToDate = true\<close>.
\<close>

theorem C7_checkMaintenanceSchedule_idempotent:
  "fst (checkMaintenanceSchedule (snd (checkMaintenanceSchedule m u)) u)"
  by (simp add: checkMaintenanceSchedule_def compareSlice_eq uptimeOf_assignUptime)

theorem C7_witness:
  "fst (checkMaintenanceSchedule
          (snd (checkMaintenanceSchedule (exampleWindow [10, 20] []) [10, 20, 30])) [10, 20, 30])
   \<and> \<not> fst (checkMaintenanceSchedule (exampleWindow [10, 20] []) [10, 20, 30])"
  using C7_checkMaintenanceSchedule_idempotent [of "exampleWindow [10, 20] []" "[10, 20, 30]"]
  by (simp add: checkMaintenanceSchedule_def compareSlice_eq uptimeOf_exampleWindow)

lemma contains_set: "contains xs x \<longleftrightarrow> x \<in> set xs"
  by (induction xs) auto

lemma main_loop_append:
  "checkMaintenanceSchedule_main_loop (xs @ ys) st =
     checkMaintenanceSchedule_main_loop ys (checkMaintenanceSchedule_main_loop xs st)"
  by (induction xs arbitrary: st) simp_all

lemma main_loop_present:
  "set xs \<subseteq> set (uptimeOf (snd st)) \<Longrightarrow> checkMaintenanceSchedule_main_loop xs st = st"
  by (induction xs arbitrary: st) (simp_all add: contains_set)

lemma main_loop_fresh:
  "distinct app \<Longrightarrow> set app \<inter> set (uptimeOf m) = {} \<Longrightarrow> app \<noteq> [] \<Longrightarrow>
   checkMaintenanceSchedule_main_loop app (b, m) = (False, assignUptime m (uptimeOf m @ app))"
proof (induction app arbitrary: b m)
  case Nil
  then show ?case by simp
next
  case (Cons a app)
  let ?m' = "assignUptime m (uptimeOf m @ [a])"
  have fresh: "\<not> contains (uptimeOf m) a"
    using Cons.prems by (simp add: contains_set)
  show ?case
  proof (cases app)
    case Nil
    with fresh show ?thesis by simp
  next
    case (Cons c cs)
    have "checkMaintenanceSchedule_main_loop app (False, ?m') =
            (False, assignUptime ?m' (uptimeOf ?m' @ app))"
      using Cons.prems Cons
      by (intro Cons.IH) (auto simp: uptimeOf_assignUptime)
    with fresh show ?thesis
      by (simp add: uptimeOf_assignUptime assignUptime_twice)
  qed
qed

text \<open>
  Whatever the one-shot loop is given, it leaves the window's list with pairwise distinct
  new IDs appended, and keeps \<open>upToDate\<close> only when it appended none.
\<close>

lemma main_loop_shape:
  "\<exists>app. distinct app \<and> set app \<inter> set (uptimeOf m) = {}
      \<and> checkMaintenanceSchedule_main_loop xs (b, m) =
          (b \<and> app = [], assignUptime m (uptimeOf m @ app))"
proof (induction xs arbitrary: b m)
  case Nil
  show ?case by (rule exI [of _ "[]"]) (simp add: assignUptime_same)
next
  case (Cons x xs)
  consider (present) "contains (uptimeOf m) x" | (absent) "\<not> contains (uptimeOf m) x"
    by blast
  then show ?case
  proof cases
    case present
    with Cons.IH [where b = b and m = m] show ?thesis by simp
  next
    case absent
    let ?m' = "assignUptime m (uptimeOf m @ [x])"
    from Cons.IH [where b = False and m = ?m'] obtain app where app:
      "distinct app" "set app \<inter> set (uptimeOf ?m') = {}"
      "checkMaintenanceSchedule_main_loop xs (False, ?m') =
         (False \<and> app = [], assignUptime ?m' (uptimeOf ?m' @ app))"
      by blast
    have "distinct (x # app)" "set (x # app) \<inter> set (uptimeOf m) = {}"
      using app absent by (auto simp: uptimeOf_assignUptime contains_set)
    moreover have "checkMaintenanceSchedule_main_loop (x # xs) (b, m) =
         (b \<and> x # app = [], assignUptime m (uptimeOf m @ x # app))"
      using app(3) absent by (simp add: uptimeOf_assignUptime assignUptime_twice)
    ultimately show ?thesis by blast
  qed
qed

text \<open>
  C10, as stated, fails: on the window \<open>[1, 2]\<close> and the desired sequence \<open>[2, 1]\<close> the
  membership-and-append version of \<open>src/main.go\<close> finds every desired ID in the window and
  returns \<open>(true, window)\<close>, while the positional version returns \<open>false\<close> and the window
  with \<open>[2, 1]\<close>.
\<close>

theorem C10_counterexample:
  "checkMaintenanceSchedule_main (exampleWindow [1, 2] []) [2, 1] = (True, exampleWindow [1, 2] [])
   \<and> checkMaintenanceSchedule (exampleWindow [1, 2] []) [2, 1] = (False, exampleWindow [2, 1] [])
   \<and> checkMaintenanceSchedule_main (exampleWindow [1, 2] []) [2, 1]
       \<noteq> checkMaintenanceSchedule (exampleWindow [1, 2] []) [2, 1]"
proof -
  have old: "checkMaintenanceSchedule_main (exampleWindow [1, 2] []) [2, 1]
               = (True, exampleWindow [1, 2] [])"
    by (simp add: checkMaintenanceSchedule_main_def uptimeOf_exampleWindow)
  have new: "checkMaintenanceSchedule (exampleWindow [1, 2] []) [2, 1]
               = (False, exampleWindow [2, 1] [])"
    by (simp add: checkMaintenanceSchedule_def compareSlice_eq uptimeOf_exampleWindow)
       (simp add: exampleWindow_def assignUptime_def)
  from old new show ?thesis by simp
qed

text \<open>
  C10, amended. The two versions of \<open>checkMaintenanceSchedule\<close> return the same pair exactly
  when the desired sequence is the window's uptime ID list followed by zero or more IDs that
  are pairwise distinct and do not occur in the window's list (in particular when the two
  lists are equal).
\<close>

theorem C10_versions_agree_iff:
  "checkMaintenanceSchedule_main m u = checkMaintenanceSchedule m u \<longleftrightarrow>
     (\<exists>app. u = uptimeOf m @ app \<and> distinct app \<and> set app \<inter> set (uptimeOf m) = {})"
proof
  assume eq: "checkMaintenanceSchedule_main m u = checkMaintenanceSchedule m u"
  from main_loop_shape [where m = m and xs = u and b = True] obtain app where app:
    "distinct app" "set app \<inter> set (uptimeOf m) = {}"
    "checkMaintenanceSchedule_main m u = (app = [], assignUptime m (uptimeOf m @ app))"
    by (auto simp: checkMaintenanceSchedule_main_def)
  consider (same) "uptimeOf m = u" | (drift) "uptimeOf m \<noteq> u"
    by blast
  then show "\<exists>app. u = uptimeOf m @ app \<and> distinct app \<and> set app \<inter> set (uptimeOf m) = {}"
  proof cases
    case same
    then show ?thesis by (intro exI [of _ "[]"]) simp
  next
    case drift
    then have "checkMaintenanceSchedule m u = (False, assignUptime m u)"
      by (simp add: checkMaintenanceSchedule_def compareSlice_eq)
    with eq app(3) have "assignUptime m (uptimeOf m @ app) = assignUptime m u" by simp
    then have "u = uptimeOf m @ app" by (simp add: assignUptime_eq_iff)
    with app(1,2) show ?thesis by blast
  qed
next
  assume "\<exists>app. u = uptimeOf m @ app \<and> distinct app \<and> set app \<inter> set (uptimeOf m) = {}"
  then obtain app where app:
    "u = uptimeOf m @ app" "distinct app" "set app \<inter> set (uptimeOf m) = {}"
    by blast
  have pre: "checkMaintenanceSchedule_main_loop (uptimeOf m) (True, m) = (True, m)"
    by (rule main_loop_present) simp
  show "checkMaintenanceSchedule_main m u = checkMaintenanceSchedule m u"
  proof (cases app)
    case Nil
    with app pre show ?thesis
      by (simp add: checkMaintenanceSchedule_main_def checkMaintenanceSchedule_def compareSlice_eq)
  next
    case (Cons a as)
    then have "app \<noteq> []" by simp
    from main_loop_fresh [OF app(2,3) this, where b = True] app(1) pre \<open>app \<noteq> []\<close> show ?thesis
      by (simp add: checkMaintenanceSchedule_main_def checkMaintenanceSchedule_def compareSlice_eq
          main_loop_append)
  qed
qed

theorem C10_witness:
  "checkMaintenanceSchedule_main (exampleWindow [1] []) [1, 2]
     = checkMaintenanceSchedule (exampleWindow [1] []) [1, 2]
   \<and> checkMaintenanceSchedule (exampleWindow [1] []) [1, 2] = (False, exampleWindow [1, 2] [])"
proof -
  have "\<exists>app. [1, 2] = uptimeOf (exampleWindow [1] []) @ app \<and> distinct app
          \<and> set app \<inter> set (uptimeOf (exampleWindow [1] [])) = {}"
    by (rule exI [of _ "[2]"]) (simp add: uptimeOf_exampleWindow)
  then have "checkMaintenanceSchedule_main (exampleWindow [1] []) [1, 2]
               = checkMaintenanceSchedule (exampleWindow [1] []) [1, 2]"
    using C10_versions_agree_iff [of "exampleWindow [1] []" "[1, 2]"] by blast
  moreover have "checkMaintenanceSchedule (exampleWindow [1] []) [1, 2]
                   = (False, exampleWindow [1, 2] [])"
    by (simp add: checkMaintenanceSchedule_def compareSlice_eq uptimeOf_exampleWindow)
       (simp add: exampleWindow_def assignUptime_def)
  ultimately show ?thesis by simp
qed

section \<open>Properties of the update\<close>

lemma update_sent:
  "sent (snd (updatePingdomMaintenanceSchedule e t m do s)) =
     sent s @ [PUT (maintenanceURL e) (''Bearer '' @ apiKey e) ''application/json''
       [(''description'', JString (MaintenanceSchedule.Description (Maintenance m))),
        (''from'', JNumber (DateUnix (Year t) (Month t) (Day t) 15 0 0)),
        (''to'', JNumber (DateUnix (Year t) (Month t) (Day t + 1) 6 0 0)),
        (''recurrencetype'', JString (MaintenanceSchedule.Recurrencetype (Maintenance m))),
        (''repeatevery'', JNumber (MaintenanceSchedule.Repeatevery (Maintenance m))),
        (''effectiveto'', JNumber (MaintenanceSchedule.Effectiveto (Maintenance m))),
        (''uptimeids'', JString (intSliceToString (uptimeOf m))),
        (''tmsids'', JString (intSliceToString (tmsOf m)))]]"
  by (simp add: updatePingdomMaintenanceSchedule_def json_Marshal_def scheduleUpdate_def
      uptimeOf_def tmsOf_def Let_def split: sum.splits option.splits)

lemma strings_Join_foldl: "strings_Join (e # es) sep = foldl (\<lambda>b s. b @ sep @ s) e es"
  by (cases es) simp_all

lemma foldl_sep_append:
  "foldl (\<lambda>b s. b @ sep @ s) (p @ q) es = p @ foldl (\<lambda>b s. b @ sep @ s) q es"
  by (induction es arbitrary: q) simp_all

lemma strings_Join_Cons2:
  "strings_Join (a # b # bs) sep = a @ sep @ strings_Join (b # bs) sep"
proof -
  have "strings_Join (a # b # bs) sep = foldl (\<lambda>b s. b @ sep @ s) (a @ sep @ b) bs"
    by simp
  also have "\<dots> = a @ sep @ foldl (\<lambda>b s. b @ sep @ s) b bs"
    using foldl_sep_append [of sep "a @ sep" b bs] by simp
  finally show ?thesis by (simp add: strings_Join_foldl)
qed

lemma intSliceToString_loop_map: "intSliceToString_loop v acc = acc @ map Itoa v"
  by (induction v arbitrary: acc) simp_all

lemma intSliceToString_Nil: "intSliceToString [] = []"
  by (simp add: intSliceToString_def)

lemma intSliceToString_single: "intSliceToString [x] = Itoa x"
  by (simp add: intSliceToString_def)

lemma intSliceToString_Cons2:
  "intSliceToString (x # y # ys) = Itoa x @ '','' @ intSliceToString (y # ys)"
  by (simp only: intSliceToString_def intSliceToString_loop_map append_Nil list.map
      strings_Join_Cons2)


lemma digitChar_not_space: "d < 10 \<Longrightarrow> digitChar d \<noteq> CHR '' ''"
proof -
  assume "d < 10"
  then have "digitChar d \<in> set ''0123456789''"
    unfolding digitChar_def by (intro nth_mem) simp
  then show ?thesis by auto
qed

lemma formatBits_no_space: "CHR '' '' \<notin> set (formatBits u)"
proof (induction u rule: formatBits.induct)
  case (1 u)
  have last: "digitChar (u mod 10) \<noteq> CHR '' ''"
    by (rule digitChar_not_space) simp
  consider (one) "u < 10" | (more) "\<not> u < 10"
    by blast
  then show ?case
  proof cases
    case one
    then have "formatBits u = [digitChar u]" by (simp add: formatBits.simps [of u])
    with one digitChar_not_space [of u] show ?thesis by simp
  next
    case more
    then have "formatBits u = formatBits (u div 10) @ [digitChar (u mod 10)]"
      by (simp add: formatBits.simps [of u])
    with 1 [OF more] last show ?thesis by simp
  qed
qed

lemma Itoa_no_space: "CHR '' '' \<notin> set (Itoa i)"
  by (simp add: Itoa_def formatBits_no_space)

lemma foldl_sep_no_space:
  "c \<notin> set sep \<Longrightarrow> c \<notin> set e \<Longrightarrow> (\<And>x. x \<in> set es \<Longrightarrow> c \<notin> set x) \<Longrightarrow>
   c \<notin> set (foldl (\<lambda>b s. b @ sep @ s) e es)"
  by (induction es arbitrary: e) simp_all

lemma strings_Join_no_space:
  assumes "c \<notin> set sep" and "\<And>x. x \<in> set es \<Longrightarrow> c \<notin> set x"
  shows "c \<notin> set (strings_Join es sep)"
proof (cases es)
  case Nil
  then show ?thesis by simp
next
  case (Cons e es')
  with assms foldl_sep_no_space [of c sep e es'] show ?thesis
    by (simp add: strings_Join_foldl)
qed

lemma intSliceToString_no_space: "CHR '' '' \<notin> set (intSliceToString v)"
proof -
  have "CHR '' '' \<notin> set (strings_Join (map Itoa v) '','')"
    by (rule strings_Join_no_space) (auto simp: Itoa_no_space)
  then show ?thesis
    by (simp add: intSliceToString_def intSliceToString_loop_map)
qed


lemma update_put:
  "\<exists>body. sent (snd (updatePingdomMaintenanceSchedule e t m do s)) =
            sent s @ [PUT (maintenanceURL e) (''Bearer '' @ apiKey e) ''application/json'' body]
      \<and> map_of body ''from'' = Some (JNumber (DateUnix (Year t) (Month t) (Day t) 15 0 0))
      \<and> map_of body ''to'' = Some (JNumber (DateUnix (Year t) (Month t) (Day t + 1) 6 0 0))
      \<and> map_of body ''uptimeids'' = Some (JString (intSliceToString (uptimeOf m)))
      \<and> map_of body ''tmsids'' = Some (JString (intSliceToString (tmsOf m)))"
  by (simp add: update_sent)

text \<open>
  C6. The update's request body carries, under \<open>uptimeids\<close> and \<open>tmsids\<close>, the window's two
  ID lists as \<open>intSliceToString\<close> writes them: nothing for no ID, the decimal text of a
  single ID, and otherwise the first ID's text, a comma, and the rest in the same way; in
  order, and with no space anywhere.
\<close>

theorem C6_intSliceToString_comma_joined:
  "(\<exists>body. sent (snd (updatePingdomMaintenanceSchedule e t m do s)) =
            sent s @ [PUT (maintenanceURL e) (''Bearer '' @ apiKey e) ''application/json'' body]
      \<and> map_of body ''uptimeids'' = Some (JString (intSliceToString (uptimeOf m)))
      \<and> map_of body ''tmsids'' = Some (JString (intSliceToString (tmsOf m))))
   \<and> intSliceToString [] = []
   \<and> intSliceToString [x] = Itoa x
   \<and> intSliceToString (x # y # ys) = Itoa x @ '','' @ intSliceToString (y # ys)
   \<and> CHR '' '' \<notin> set (intSliceToString v)"
  using update_put [of e t m do s] intSliceToString_Nil intSliceToString_single [of x]
    intSliceToString_Cons2 [of x y ys] intSliceToString_no_space [of v]
  by blast

lemma Itoa_examples: "Itoa 5 = ''5''" "Itoa 9 = ''9''" "Itoa 7 = ''7''" "Itoa 4711 = ''4711''"
  by (simp_all add: Itoa_def formatBits.simps digitChar_def)

lemma maintenanceURL_exampleEnv:
  "maintenanceURL exampleEnv = ''https://api.pingdom.com/api/3.1/maintenance/4711''"
  by (simp add: maintenanceURL_def exampleEnv_def Itoa_examples)

theorem C6_witness:
  "\<exists>body. sent (snd (updatePingdomMaintenanceSchedule exampleEnv \<lparr>Year = 2026, Month = 12, Day = 31\<rparr>
            (exampleWindow [5, 9] [7]) (respond 200 ''ok'') (exampleState 0 0))) =
         [PUT ''https://api.pingdom.com/api/3.1/maintenance/4711'' ''Bearer secret''
            ''application/json'' body]
     \<and> map_of body ''uptimeids'' = Some (JString ''5,9'')
     \<and> map_of body ''tmsids'' = Some (JString ''7'')"
proof -
  have ids: "intSliceToString [5, 9] = ''5,9''" "intSliceToString [7] = ''7''"
    using C6_intSliceToString_comma_joined [where x = 5 and y = 9 and ys = "[]"]
      C6_intSliceToString_comma_joined [where x = 7]
      C6_intSliceToString_comma_joined [where x = 9]
    by (simp_all add: Itoa_examples)
  show ?thesis
    using C6_intSliceToString_comma_joined [of exampleEnv "\<lparr>Year = 2026, Month = 12, Day = 31\<rparr>"
        "exampleWindow [5, 9] [7]" "respond 200 ''ok''" "exampleState 0 0"]
    by (simp add: ids maintenanceURL_exampleEnv uptimeOf_exampleWindow tmsOf_exampleWindow)
       (simp add: exampleEnv_def exampleState_def)
qed

subsection \<open>\<open>time.Date\<close> counts calendar days\<close>

text \<open>
  \<open>norm\<close> is division with remainder, so the month index that \<open>DateUnix\<close> looks up in
  \<open>daysBefore\<close> is always in \<open>0..11\<close>. The cycle count of \<open>daysSinceEpoch\<close> is the usual
  day count of the Gregorian calendar, and a year is one day longer exactly when it is a
  leap year.
\<close>

lemma norm_div_mod:
  assumes "0 < base"
  shows "norm hi lo base = (hi + lo div base, lo mod base)"
proof -
  consider (neg) "lo < 0" | (mid) "0 \<le> lo" "lo < base" | (big) "base \<le> lo"
    by linarith
  then show ?thesis
  proof cases
    case neg
    define k where "k = (- lo - 1) div base"
    define r where "r = (- lo - 1) mod base"
    have r: "0 \<le> r" "r < base"
      using assms by (simp_all add: r_def)
    have split: "- lo - 1 = base * k + r"
      by (simp add: k_def r_def)
    have lo: "lo = base * (- (k + 1)) + (base - r - 1)"
      using split by (simp add: algebra_simps)
    have q: "lo div base = - (k + 1)"
      using lo r by (intro int_div_pos_eq [where r = "base - r - 1"]) simp_all
    have m: "lo mod base = base - r - 1"
      using lo r by (intro int_mod_pos_eq [where q = "- (k + 1)"]) simp_all
    have "lo + (k + 1) * base = base - r - 1"
      using split by (simp add: algebra_simps)
    with r neg show ?thesis
      by (simp add: norm_def Let_def q m k_def [symmetric])
  next
    case mid
    then show ?thesis by (simp add: norm_def)
  next
    case big
    with assms have "0 \<le> lo" by simp
    with big assms show ?thesis
      by (simp add: norm_def Let_def minus_mult_div_eq_mod mult.commute)
  qed
qed

lemma daysSinceEpoch_alt:
  "daysSinceEpoch year =
     146097 * ((year - absoluteZeroYear) div 400)
       + 36524 * ((year - absoluteZeroYear) mod 400 div 100)
       + 1461 * ((year - absoluteZeroYear) mod 100 div 4)
       + 365 * ((year - absoluteZeroYear) mod 4)"
proof -
  define z where "z = year - absoluteZeroYear"
  have a: "z - 400 * (z div 400) = z mod 400"
    by (simp add: minus_mult_div_eq_mod)
  have b: "z mod 400 - 100 * (z mod 400 div 100) = z mod 100"
    by (simp add: minus_mult_div_eq_mod mod_mod_cancel)
  have c: "z mod 100 - 4 * (z mod 100 div 4) = z mod 4"
    by (simp add: minus_mult_div_eq_mod mod_mod_cancel)
  show ?thesis
    unfolding daysSinceEpoch_def Let_def z_def [symmetric] a b c ..
qed

lemma div_succ:
  fixes z b :: int
  assumes "0 < b"
  shows "(z + 1) div b = z div b + (if (z + 1) mod b = 0 then 1 else 0)"
proof -
  define q where "q = z div b"
  define r where "r = z mod b"
  have r: "0 \<le> r" "r < b" using assms by (simp_all add: r_def)
  have z: "z = b * q + r" by (simp add: q_def r_def)
  consider (inside) "r + 1 < b" | (wrap) "r + 1 = b"
    using r by linarith
  then show ?thesis
  proof cases
    case inside
    have "z + 1 = b * q + (r + 1)" using z by simp
    with inside r have "(z + 1) div b = q" "(z + 1) mod b = r + 1"
      by (auto intro: int_div_pos_eq int_mod_pos_eq)
    with r show ?thesis by (simp add: q_def)
  next
    case wrap
    have "z + 1 = b * (q + 1) + 0" using z wrap by (simp add: algebra_simps)
    with assms have "(z + 1) div b = q + 1" "(z + 1) mod b = 0"
      by (auto intro: int_div_pos_eq int_mod_pos_eq)
    then show ?thesis by (simp add: q_def)
  qed
qed

lemma cycles_closed_form:
  fixes z :: int
  shows "146097 * (z div 400) + 36524 * (z mod 400 div 100) + 1461 * (z mod 100 div 4)
           + 365 * (z mod 4) =
         365 * z + z div 4 - z div 100 + z div 400"
proof -
  define q where "q = z div 400"
  define a where "a = z mod 400 div 100"
  define b where "b = z mod 100 div 4"
  define t where "t = z mod 4"
  have m100: "z mod 400 mod 100 = z mod 100" and m4: "z mod 100 mod 4 = z mod 4"
    by (simp_all add: mod_mod_cancel)
  have r400: "z mod 400 = 100 * a + z mod 100"
    unfolding a_def using mult_div_mod_eq [of 100 "z mod 400"] m100 by simp
  have r100: "z mod 100 = 4 * b + t"
    unfolding b_def t_def using mult_div_mod_eq [of 4 "z mod 100"] m4 by simp
  have z: "z = 400 * q + 100 * a + 4 * b + t"
    unfolding q_def using mult_div_mod_eq [of 400 z] r400 r100 by simp
  have t: "0 \<le> t" "t < 4" by (simp_all add: t_def)
  have b: "0 \<le> b" "b < 25" by (simp_all add: b_def pos_imp_zdiv_nonneg_iff div_less_iff_less_mult)
  have a: "0 \<le> a" "a < 4" by (simp_all add: a_def pos_imp_zdiv_nonneg_iff div_less_iff_less_mult)
  have d4: "z div 4 = 100 * q + 25 * a + b"
    by (rule int_div_pos_eq [where r = t]) (use z t in simp_all)
  have d100: "z div 100 = 4 * q + a"
    by (rule int_div_pos_eq [where r = "4 * b + t"]) (use z t b in simp_all)
  show ?thesis
    unfolding q_def [symmetric] a_def [symmetric] b_def [symmetric] t_def [symmetric] d4 d100
    using z by simp
qed

lemma daysSinceEpoch_closed_form:
  "daysSinceEpoch year =
     365 * (year - absoluteZeroYear) + (year - absoluteZeroYear) div 4
       - (year - absoluteZeroYear) div 100 + (year - absoluteZeroYear) div 400"
  by (simp only: daysSinceEpoch_alt cycles_closed_form)

lemma isLeap_absolute:
  "isLeap year \<longleftrightarrow>
     (year - absoluteZeroYear + 1) mod 4 = 0
       \<and> ((year - absoluteZeroYear + 1) mod 100 \<noteq> 0 \<or> (year - absoluteZeroYear + 1) mod 400 = 0)"
proof -
  have e: "year - absoluteZeroYear + 1 = year + 292277022400"
    by (simp add: absoluteZeroYear_def)
  have "(year + 400 * 730692556) mod 400 = year mod 400"
    "(year + 100 * 2922770224) mod 100 = year mod 100"
    "(year + 4 * 73069255600) mod 4 = year mod 4"
    by (simp_all only: mod_mult_self2)
  then have "(year + 292277022400) mod 400 = year mod 400"
    "(year + 292277022400) mod 100 = year mod 100"
    "(year + 292277022400) mod 4 = year mod 4"
    by simp_all
  then show ?thesis
    by (simp only: isLeap_def e)
qed



lemma div_pred:
  fixes n b :: int
  assumes "0 < b"
  shows "n div b = (n - 1) div b + (if n mod b = 0 then 1 else 0)"
  using div_succ [OF assms, of "n - 1"] by (simp only: diff_add_cancel)

lemma daysSinceEpoch_next_year:
  "daysSinceEpoch (year + 1) = daysSinceEpoch year + 365 + (if isLeap year then 1 else 0)"
proof -
  define n where "n = year - absoluteZeroYear + 1"
  have n: "year + 1 - absoluteZeroYear = n" "year - absoluteZeroYear = n - 1"
    by (simp_all add: n_def)
  have c100: "n mod 100 = 0" if "n mod 400 = 0"
    using that mod_mod_cancel [of 100 400 n] by simp
  have c4: "n mod 4 = 0" if "n mod 100 = 0"
    using that mod_mod_cancel [of 4 100 n] by simp
  have s4: "n div 4 = (n - 1) div 4 + (if n mod 4 = 0 then 1 else 0)"
    by (rule div_pred) simp
  have s100: "n div 100 = (n - 1) div 100 + (if n mod 100 = 0 then 1 else 0)"
    by (rule div_pred) simp
  have s400: "n div 400 = (n - 1) div 400 + (if n mod 400 = 0 then 1 else 0)"
    by (rule div_pred) simp
  have "365 * n + n div 4 - n div 100 + n div 400 =
        365 * (n - 1) + (n - 1) div 4 - (n - 1) div 100 + (n - 1) div 400 + 365
          + (if n mod 4 = 0 \<and> (n mod 100 \<noteq> 0 \<or> n mod 400 = 0) then 1 else 0)"
    using c100 c4 by (auto simp only: s4 s100 s400 split: if_splits) (simp_all add: algebra_simps)
  then show ?thesis
    unfolding daysSinceEpoch_closed_form n isLeap_absolute diff_add_cancel .
qed


lemma DateUnix_6:
  assumes "1 \<le> month" "month \<le> 12"
  shows "DateUnix year month day 6 0 0 =
           (daysSinceEpoch year + daysBefore ! nat (month - 1)
              + (if isLeap year \<and> 3 \<le> month then 1 else 0) + (day - 1)) * 86400
           + 21600 + (absoluteToInternal + internalToUnix)"
  using assms by (simp add: DateUnix_def norm_def Let_def)

text \<open>
  The day after the last day of a month is the first day of the next month, and the day
  after 31 December is 1 January of the next year: \<open>t.Day()+1\<close> in the call of \<open>time.Date\<close>
  names the following calendar day.
\<close>

lemma DateUnix_day_after_month_end:
  "DateUnix y 1 (31 + 1) 6 0 0 = DateUnix y 2 1 6 0 0"
  "DateUnix y 2 ((if isLeap y then 29 else 28) + 1) 6 0 0 = DateUnix y 3 1 6 0 0"
  "DateUnix y 3 (31 + 1) 6 0 0 = DateUnix y 4 1 6 0 0"
  "DateUnix y 4 (30 + 1) 6 0 0 = DateUnix y 5 1 6 0 0"
  "DateUnix y 5 (31 + 1) 6 0 0 = DateUnix y 6 1 6 0 0"
  "DateUnix y 6 (30 + 1) 6 0 0 = DateUnix y 7 1 6 0 0"
  "DateUnix y 7 (31 + 1) 6 0 0 = DateUnix y 8 1 6 0 0"
  "DateUnix y 8 (31 + 1) 6 0 0 = DateUnix y 9 1 6 0 0"
  "DateUnix y 9 (30 + 1) 6 0 0 = DateUnix y 10 1 6 0 0"
  "DateUnix y 10 (31 + 1) 6 0 0 = DateUnix y 11 1 6 0 0"
  "DateUnix y 11 (30 + 1) 6 0 0 = DateUnix y 12 1 6 0 0"
  "DateUnix y 12 (31 + 1) 6 0 0 = DateUnix (y + 1) 1 1 6 0 0"
  by (simp_all add: DateUnix_6 daysBefore_def daysSinceEpoch_next_year)

lemma DateUnix_epoch: "DateUnix 1970 1 1 0 0 0 = 0"
  by (simp add: DateUnix_def norm_def daysSinceEpoch_def daysBefore_def isLeap_def
      absoluteZeroYear_def absoluteToInternal_def internalToUnix_def Let_def)

subsection \<open>The times of day of the update\<close>

lemma norm_in_range: "0 \<le> lo \<Longrightarrow> lo < base \<Longrightarrow> norm hi lo base = (hi, lo)"
  by (simp add: norm_def)

lemma DateUnix_15: "DateUnix y m d 15 0 0 = DateUnix y m d 0 0 0 + 54000"
  by (simp add: DateUnix_def norm_in_range Let_def split: prod.splits)

lemma DateUnix_next_6: "DateUnix y m (d + 1) 6 0 0 = DateUnix y m d 0 0 0 + 86400 + 21600"
  by (simp add: DateUnix_def norm_in_range Let_def split: prod.splits)

lemma DateUnix_midnight: "DateUnix y m d 0 0 0 mod 86400 = 0"
  by (simp add: DateUnix_def norm_in_range Let_def absoluteToInternal_def internalToUnix_def
      split: prod.splits)

lemma DateUnix_midnight_mult: "\<exists>k. DateUnix y m d 0 0 0 = 86400 * k"
  using DateUnix_midnight [of y m d] by (auto simp: mod_eq_0_iff_dvd elim: dvdE)

lemma DateUnix_examples:
  "DateUnix 2026 12 31 15 0 0 = 1798729200" "DateUnix 2026 12 32 6 0 0 = 1798783200"
  "DateUnix 2027 1 1 6 0 0 = 1798783200"
  by (simp_all add: DateUnix_def norm_def daysSinceEpoch_def daysBefore_def isLeap_def
      absoluteZeroYear_def absoluteToInternal_def internalToUnix_def Let_def)

text \<open>
  C4. Every update sends \<open>from\<close> and \<open>to\<close> computed from the clock's date and not from the
  window: \<open>from\<close> is \<open>time.Date\<close> of that date at 15:00:00 UTC, \<open>to\<close> is \<open>time.Date\<close> of
  the day after at 06:00:00 UTC, both as Unix seconds. As seconds since 1970, \<open>from\<close> lies
  on the day of the date's midnight at 54000 seconds into it, and \<open>to\<close> on the next day
  at 21600 seconds into it.
\<close>

theorem C4_update_recomputes_from_and_to:
  "\<exists>body from to.
      sent (snd (updatePingdomMaintenanceSchedule e t m do s)) =
        sent s @ [PUT (maintenanceURL e) (''Bearer '' @ apiKey e) ''application/json'' body]
      \<and> map_of body ''from'' = Some (JNumber from)
      \<and> map_of body ''to'' = Some (JNumber to)
      \<and> from = DateUnix (Year t) (Month t) (Day t) 15 0 0
      \<and> to = DateUnix (Year t) (Month t) (Day t + 1) 6 0 0
      \<and> from div 86400 = DateUnix (Year t) (Month t) (Day t) 0 0 0 div 86400
      \<and> from mod 86400 = 15 * 3600
      \<and> to div 86400 = from div 86400 + 1
      \<and> to mod 86400 = 6 * 3600"
proof -
  let ?mid = "DateUnix (Year t) (Month t) (Day t) 0 0 0"
  let ?from = "DateUnix (Year t) (Month t) (Day t) 15 0 0"
  let ?to = "DateUnix (Year t) (Month t) (Day t + 1) 6 0 0"
  obtain k where k: "?mid = 86400 * k"
    using DateUnix_midnight_mult by blast
  have start: "?from = 86400 * k + 54000"
    by (simp add: DateUnix_15 k)
  have finish: "?to = 86400 * (k + 1) + 21600"
    by (simp add: DateUnix_next_6 k)
  have "?from div 86400 = ?mid div 86400" "?from mod 86400 = 15 * 3600"
       "?to div 86400 = ?from div 86400 + 1" "?to mod 86400 = 6 * 3600"
    unfolding start finish k by simp_all
  with update_put [of e t m do s] show ?thesis by blast
qed



lemma exampleEnv_simps:
  "apiKey exampleEnv = ''secret''" "maintenanceID exampleEnv = 4711"
  "pollInterval exampleEnv = 300" "metricsPort exampleEnv = ''9600''"
  by (simp_all add: exampleEnv_def)

lemma exampleState_simps:
  "slaTotal (exampleState a b) = a" "slaMaintenance (exampleState a b) = b"
  "logged (exampleState a b) = []" "sent (exampleState a b) = []"
  by (simp_all add: exampleState_def)

theorem C4_witness:
  "\<exists>body. sent (snd (updatePingdomMaintenanceSchedule exampleEnv \<lparr>Year = 2026, Month = 12, Day = 31\<rparr>
            (exampleWindow [5, 9] [7]) (respond 200 ''ok'') (exampleState 0 0))) =
         [PUT ''https://api.pingdom.com/api/3.1/maintenance/4711'' ''Bearer secret''
            ''application/json'' body]
     \<and> map_of body ''from'' = Some (JNumber 1798729200)
     \<and> map_of body ''to'' = Some (JNumber 1798783200)
     \<and> 1798783200 = DateUnix 2027 1 1 6 0 0
     \<and> MaintenanceSchedule.From (Maintenance (exampleWindow [5, 9] [7])) = 1577890800
     \<and> MaintenanceSchedule.To (Maintenance (exampleWindow [5, 9] [7])) = 1577944800"
proof -
  have window: "MaintenanceSchedule.From (Maintenance (exampleWindow [5, 9] [7])) = 1577890800"
    "MaintenanceSchedule.To (Maintenance (exampleWindow [5, 9] [7])) = 1577944800"
    by (simp_all add: exampleWindow_def)
  have "\<exists>body. sent (snd (updatePingdomMaintenanceSchedule exampleEnv
                  \<lparr>Year = 2026, Month = 12, Day = 31\<rparr>
                  (exampleWindow [5, 9] [7]) (respond 200 ''ok'') (exampleState 0 0))) =
         [PUT ''https://api.pingdom.com/api/3.1/maintenance/4711'' ''Bearer secret''
            ''application/json'' body]
     \<and> map_of body ''from'' = Some (JNumber 1798729200)
     \<and> map_of body ''to'' = Some (JNumber 1798783200)"
    using C4_update_recomputes_from_and_to [of exampleEnv "\<lparr>Year = 2026, Month = 12, Day = 31\<rparr>"
        "exampleWindow [5, 9] [7]" "respond 200 ''ok''" "exampleState 0 0"]
    by (simp add: maintenanceURL_exampleEnv DateUnix_examples exampleEnv_simps exampleState_simps)
       blast
  with window show ?thesis by (simp add: DateUnix_examples)
qed

text \<open>
  C5. The request body of an update is exactly the eight fields \<open>description\<close>, \<open>from\<close>,
  \<open>to\<close>, \<open>recurrencetype\<close>, \<open>repeatevery\<close>, \<open>effectiveto\<close>, \<open>uptimeids\<close>, \<open>tmsids\<close> (no
  \<open>duration\<close>, \<open>durationunit\<close> or \<open>dayofweekinmonth\<close>); description, recurrence type,
  repeat interval and effective-to are the window's own, \<open>tmsids\<close> is written from the
  window's tms list, and the reconciler hands all of these on as it fetched them.
\<close>

theorem C5_update_payload_fields:
  "sent (snd (updatePingdomMaintenanceSchedule e t m do s)) =
     sent s @ [PUT (maintenanceURL e) (''Bearer '' @ apiKey e) ''application/json''
       [(''description'', JString (MaintenanceSchedule.Description (Maintenance m))),
        (''from'', JNumber (DateUnix (Year t) (Month t) (Day t) 15 0 0)),
        (''to'', JNumber (DateUnix (Year t) (Month t) (Day t + 1) 6 0 0)),
        (''recurrencetype'', JString (MaintenanceSchedule.Recurrencetype (Maintenance m))),
        (''repeatevery'', JNumber (MaintenanceSchedule.Repeatevery (Maintenance m))),
        (''effectiveto'', JNumber (MaintenanceSchedule.Effectiveto (Maintenance m))),
        (''uptimeids'', JString (intSliceToString (uptimeOf m))),
        (''tmsids'', JString (intSliceToString (tmsOf m)))]]
   \<and> MaintenanceSchedule.Description (Maintenance (snd (checkMaintenanceSchedule w u)))
        = MaintenanceSchedule.Description (Maintenance w)
   \<and> MaintenanceSchedule.Recurrencetype (Maintenance (snd (checkMaintenanceSchedule w u)))
        = MaintenanceSchedule.Recurrencetype (Maintenance w)
   \<and> MaintenanceSchedule.Repeatevery (Maintenance (snd (checkMaintenanceSchedule w u)))
        = MaintenanceSchedule.Repeatevery (Maintenance w)
   \<and> MaintenanceSchedule.Effectiveto (Maintenance (snd (checkMaintenanceSchedule w u)))
        = MaintenanceSchedule.Effectiveto (Maintenance w)
   \<and> tmsOf (snd (checkMaintenanceSchedule w u)) = tmsOf w"
  by (simp add: update_sent checkMaintenanceSchedule_def assignUptime_def tmsOf_def)

theorem C5_witness:
  "sent (snd (updatePingdomMaintenanceSchedule exampleEnv \<lparr>Year = 2026, Month = 12, Day = 31\<rparr>
            (snd (checkMaintenanceSchedule (exampleWindow [5] [7]) [5, 9]))
            (respond 200 ''ok'') (exampleState 0 0))) =
     [PUT ''https://api.pingdom.com/api/3.1/maintenance/4711'' ''Bearer secret'' ''application/json''
       [(''description'', JString ''sla''),
        (''from'', JNumber 1798729200),
        (''to'', JNumber 1798783200),
        (''recurrencetype'', JString ''day''),
        (''repeatevery'', JNumber 1),
        (''effectiveto'', JNumber 1893456000),
        (''uptimeids'', JString ''5,9''),
        (''tmsids'', JString ''7'')]]"
proof -
  let ?w = "exampleWindow [5] [7]"
  let ?m = "snd (checkMaintenanceSchedule ?w [5, 9])"
  have ids: "intSliceToString [5, 9] = ''5,9''" "intSliceToString [7] = ''7''"
    by (simp_all add: intSliceToString_def Itoa_examples)
  have up: "uptimeOf ?m = [5, 9]"
    by (simp add: checkMaintenanceSchedule_def compareSlice_eq uptimeOf_exampleWindow
        uptimeOf_assignUptime)
  have w: "MaintenanceSchedule.Description (Maintenance ?w) = ''sla''"
    "MaintenanceSchedule.Recurrencetype (Maintenance ?w) = ''day''"
    "MaintenanceSchedule.Repeatevery (Maintenance ?w) = 1"
    "MaintenanceSchedule.Effectiveto (Maintenance ?w) = 1893456000"
    by (simp_all add: exampleWindow_def)
  show ?thesis
    using C5_update_payload_fields [of exampleEnv "\<lparr>Year = 2026, Month = 12, Day = 31\<rparr>"
        ?m "respond 200 ''ok''" "exampleState 0 0" ?w "[5, 9]"]
    by (simp add: ids up w maintenanceURL_exampleEnv DateUnix_examples tmsOf_exampleWindow)
       (simp add: exampleEnv_def exampleState_def)
qed

section \<open>Properties of the fetches and the scheduler\<close>

lemma getPingdomChecks_sent:
  "sent (snd (getPingdomChecks js e do s)) =
     sent s @ [GET ''https://api.pingdom.com/api/3.1/checks?tags=sla'' (''Bearer '' @ apiKey e)]"
  by (simp add: getPingdomChecks_def Let_def split: sum.splits)

lemma getPingdomChecks_logged: "logged (snd (getPingdomChecks js e do s)) = logged s"
  by (simp add: getPingdomChecks_def Let_def split: sum.splits)

lemma getPingdomChecks_slaTotal:
  "getPingdomChecks js e do s = (Inr c, s1) \<Longrightarrow> slaTotal s1 = int (length (PingdomChecks.Checks c))"
  by (auto simp: getPingdomChecks_def Let_def split: sum.splits if_splits)

lemma getPingdomMainenanceSchedule_sent:
  "sent (snd (getPingdomMainenanceSchedule js e do s)) =
     sent s @ [GET (maintenanceURL e) (''Bearer '' @ apiKey e)]"
  by (simp add: getPingdomMainenanceSchedule_def Let_def split: sum.splits)

lemma getPingdomMainenanceSchedule_logged:
  "logged (snd (getPingdomMainenanceSchedule js e do s)) = logged s"
  by (simp add: getPingdomMainenanceSchedule_def Let_def split: sum.splits)

lemma getPingdomMainenanceSchedule_slaTotal:
  "slaTotal (snd (getPingdomMainenanceSchedule js e do s)) = slaTotal s"
  by (simp add: getPingdomMainenanceSchedule_def Let_def split: sum.splits)

lemma getPingdomMainenanceSchedule_frame:
  "snd (getPingdomMainenanceSchedule js e do s) =
     s\<lparr>slaMaintenance := slaMaintenance (snd (getPingdomMainenanceSchedule js e do s)),
       sent := sent s @ [GET (maintenanceURL e) (''Bearer '' @ apiKey e)]\<rparr>"
  by (simp add: getPingdomMainenanceSchedule_def Let_def split: sum.splits)

lemma update_logged_error:
  "fst (updatePingdomMaintenanceSchedule e t m do s) = Some err \<Longrightarrow>
   logged (snd (updatePingdomMaintenanceSchedule e t m do s)) = logged s"
  by (auto simp: updatePingdomMaintenanceSchedule_def json_Marshal_def Let_def
      split: sum.splits option.splits if_splits)

lemma logPrintf_simps:
  "logged (logPrintf msg s) = logged s @ [Log msg]" "sent (logPrintf msg s) = sent s"
  "slaTotal (logPrintf msg s) = slaTotal s" "slaMaintenance (logPrintf msg s) = slaMaintenance s"
  by (simp_all add: logPrintf_def)

lemma tick_checks_error:
  assumes "getPingdomChecks js e (checksDo w) s = (Inl err, s1)"
  shows "tick js e w s = logPrintf (CHR 0x09 # ''Pingdom checks: [ERROR] - '' @ Error err) s1"
  using assms by (simp add: tick_def)

lemma tick_schedule_error:
  assumes "getPingdomChecks js e (checksDo w) s = (Inr c, s1)"
    and "getPingdomMainenanceSchedule js e (scheduleDo w) s1 = (Inl err, s2)"
  shows "tick js e w s = logPrintf (CHR 0x09 # ''Pingdom maintenance: [ERROR] - '' @ Error err) s2"
  using assms by (simp add: tick_def)

lemma tick_update:
  assumes "getPingdomChecks js e (checksDo w) s = (Inr c, s1)"
    and "getPingdomMainenanceSchedule js e (scheduleDo w) s1 = (Inr m, s2)"
    and "\<not> fst (checkMaintenanceSchedule m (getUptimeIds c))"
    and "updatePingdomMaintenanceSchedule e (clock w) (snd (checkMaintenanceSchedule m (getUptimeIds c)))
           (updateDo w) s2 = (r, s3)"
  shows "tick js e w s =
     (case r of Some err \<Rightarrow>
        logPrintf (CHR 0x09 # ''Pingdom update maintenance schedule: [ERROR] - '' @ Error err) s3
      | None \<Rightarrow> s3)"
  using assms by (cases r) (simp_all add: tick_def split_beta)

lemma tick_up_to_date:
  assumes "getPingdomChecks js e (checksDo w) s = (Inr c, s1)"
    and "getPingdomMainenanceSchedule js e (scheduleDo w) s1 = (Inr m, s2)"
    and "fst (checkMaintenanceSchedule m (getUptimeIds c))"
  shows "tick js e w s =
     snd (getPingdomMainenanceSchedule js e (refetchDo w)
            (logPrintf (CHR 0x09 # ''Maintenance schedule up to date'') s2))"
  using assms by (simp add: tick_def split_beta)

lemma getPingdomMainenanceSchedule_gauge:
  "slaMaintenance (snd (getPingdomMainenanceSchedule js e do s)) =
     (case do of
        Inl err \<Rightarrow> 0
      | Inr resp \<Rightarrow>
          if \<not> statusOK resp then slaMaintenance s
          else (case UnmarshalSchedule js (BodyData resp) of
                  Inl err \<Rightarrow> 0
                | Inr m2 \<Rightarrow> int (length (uptimeOf m2))))"
  by (simp add: getPingdomMainenanceSchedule_def Let_def split: sum.splits)

lemma getPingdomMainenanceSchedule_ok_gauge:
  "getPingdomMainenanceSchedule js e do s = (Inr m, s2) \<Longrightarrow>
   slaMaintenance s2 = int (length (uptimeOf m))"
  by (auto simp: getPingdomMainenanceSchedule_def Let_def split: sum.splits if_splits)

text \<open>
  C9. In a tick whose two fetches succeed and whose reconciler reports \<open>upToDate = true\<close>,
  the requests sent are the checks fetch, the window fetch and one more window fetch, and
  no update; the log gains the line "Maintenance schedule up to date" and nothing else
  (the second fetch's error is not logged). The second fetch decides the window gauge: 0
  on a transport or decode error, the length of the uptime list it decoded on success, and
  on a status outside 2xx the value the first fetch set, the length of the first window's
  list. Nothing else of the state depends on the second fetch: the tick's state is the
  state after the first window fetch with that gauge, the log line and the request added.
\<close>

theorem C9_up_to_date_tick:
  assumes "getPingdomChecks js e (checksDo w) s = (Inr c, s1)"
    and "getPingdomMainenanceSchedule js e (scheduleDo w) s1 = (Inr m, s2)"
    and "fst (checkMaintenanceSchedule m (getUptimeIds c))"
  shows "sent (tick js e w s) =
           sent s @ [GET ''https://api.pingdom.com/api/3.1/checks?tags=sla'' (''Bearer '' @ apiKey e),
                     GET (maintenanceURL e) (''Bearer '' @ apiKey e),
                     GET (maintenanceURL e) (''Bearer '' @ apiKey e)]
       \<and> logged (tick js e w s) = logged s @ [Log (CHR 0x09 # ''Maintenance schedule up to date'')]
       \<and> slaTotal (tick js e w s) = int (length (PingdomChecks.Checks c))
       \<and> slaMaintenance (tick js e w s) =
           (case refetchDo w of
              Inl err \<Rightarrow> 0
            | Inr resp \<Rightarrow>
                if \<not> statusOK resp then int (length (uptimeOf m))
                else (case UnmarshalSchedule js (BodyData resp) of
                        Inl err \<Rightarrow> 0
                      | Inr m2 \<Rightarrow> int (length (uptimeOf m2))))
       \<and> tick js e w s =
           s2\<lparr>slaMaintenance :=
                (case refetchDo w of
                   Inl err \<Rightarrow> 0
                 | Inr resp \<Rightarrow>
                     if \<not> statusOK resp then int (length (uptimeOf m))
                     else (case UnmarshalSchedule js (BodyData resp) of
                             Inl err \<Rightarrow> 0
                           | Inr m2 \<Rightarrow> int (length (uptimeOf m2)))),
              logged := logged s2 @ [Log (CHR 0x09 # ''Maintenance schedule up to date'')],
              sent := sent s2 @ [GET (maintenanceURL e) (''Bearer '' @ apiKey e)]\<rparr>"
proof -
  let ?s3 = "logPrintf (CHR 0x09 # ''Maintenance schedule up to date'') s2"
  let ?g = "case refetchDo w of
              Inl err \<Rightarrow> 0
            | Inr resp \<Rightarrow>
                if \<not> statusOK resp then int (length (uptimeOf m))
                else (case UnmarshalSchedule js (BodyData resp) of
                        Inl err \<Rightarrow> 0
                      | Inr m2 \<Rightarrow> int (length (uptimeOf m2)))"
  have t: "tick js e w s = snd (getPingdomMainenanceSchedule js e (refetchDo w) ?s3)"
    using assms by (rule tick_up_to_date)
  have s1: "sent s1 = sent s @ [GET ''https://api.pingdom.com/api/3.1/checks?tags=sla'' (''Bearer '' @ apiKey e)]"
    "logged s1 = logged s"
    using getPingdomChecks_sent [of js e "checksDo w" s] getPingdomChecks_logged [of js e "checksDo w" s]
      assms(1) by simp_all
  have s2: "sent s2 = sent s1 @ [GET (maintenanceURL e) (''Bearer '' @ apiKey e)]"
    "logged s2 = logged s1" "slaTotal s2 = slaTotal s1"
    using getPingdomMainenanceSchedule_sent [of js e "scheduleDo w" s1]
      getPingdomMainenanceSchedule_logged [of js e "scheduleDo w" s1]
      getPingdomMainenanceSchedule_slaTotal [of js e "scheduleDo w" s1]
      assms(2) by simp_all
  have total: "slaTotal s1 = int (length (PingdomChecks.Checks c))"
    using assms(1) by (rule getPingdomChecks_slaTotal)
  have first: "slaMaintenance s2 = int (length (uptimeOf m))"
    using assms(2) by (rule getPingdomMainenanceSchedule_ok_gauge)
  have gauge: "slaMaintenance (tick js e w s) = ?g"
    unfolding t getPingdomMainenanceSchedule_gauge
    by (simp add: logPrintf_simps first split: sum.splits)
  have requests: "sent (tick js e w s) = sent s2 @ [GET (maintenanceURL e) (''Bearer '' @ apiKey e)]"
    by (simp add: t getPingdomMainenanceSchedule_sent logPrintf_simps)
  have lines: "logged (tick js e w s) = logged s2 @ [Log (CHR 0x09 # ''Maintenance schedule up to date'')]"
    by (simp add: t getPingdomMainenanceSchedule_logged logPrintf_simps)
  have checks: "slaTotal (tick js e w s) = slaTotal s2"
    by (simp add: t getPingdomMainenanceSchedule_slaTotal logPrintf_simps)
  have whole: "tick js e w s =
           s2\<lparr>slaMaintenance := ?g,
              logged := logged s2 @ [Log (CHR 0x09 # ''Maintenance schedule up to date'')],
              sent := sent s2 @ [GET (maintenanceURL e) (''Bearer '' @ apiKey e)]\<rparr>"
  proof -
    have "tick js e w s =
            ?s3\<lparr>slaMaintenance := slaMaintenance (tick js e w s),
                sent := sent ?s3 @ [GET (maintenanceURL e) (''Bearer '' @ apiKey e)]\<rparr>"
      using getPingdomMainenanceSchedule_frame [of js e "refetchDo w" ?s3]
      unfolding t [symmetric] .
    also have "\<dots> = ?s3\<lparr>slaMaintenance := ?g,
                sent := sent ?s3 @ [GET (maintenanceURL e) (''Bearer '' @ apiKey e)]\<rparr>"
      by (simp only: gauge)
    also have "\<dots> = s2\<lparr>slaMaintenance := ?g,
              logged := logged s2 @ [Log (CHR 0x09 # ''Maintenance schedule up to date'')],
              sent := sent s2 @ [GET (maintenanceURL e) (''Bearer '' @ apiKey e)]\<rparr>"
      by (simp add: logPrintf_def)
    finally show ?thesis .
  qed
  have "sent (tick js e w s) =
           sent s @ [GET ''https://api.pingdom.com/api/3.1/checks?tags=sla'' (''Bearer '' @ apiKey e),
                     GET (maintenanceURL e) (''Bearer '' @ apiKey e),
                     GET (maintenanceURL e) (''Bearer '' @ apiKey e)]"
    by (simp add: requests s1 s2)
  moreover have "logged (tick js e w s) =
      logged s @ [Log (CHR 0x09 # ''Maintenance schedule up to date'')]"
    by (simp add: lines s1 s2)
  moreover have "slaTotal (tick js e w s) = int (length (PingdomChecks.Checks c))"
    by (simp add: checks s2 total)
  ultimately show ?thesis
    using gauge whole by blast
qed

lemma checksURL_neq_maintenanceURL:
  "''https://api.pingdom.com/api/3.1/checks?tags=sla'' \<noteq> maintenanceURL e"
  "maintenanceURL e \<noteq> ''https://api.pingdom.com/api/3.1/checks?tags=sla''"
  by (simp_all add: maintenanceURL_def)

lemma tick_sent_count:
  "count_list (sent (tick js e w s))
      (GET ''https://api.pingdom.com/api/3.1/checks?tags=sla'' (''Bearer '' @ apiKey e)) =
   count_list (sent s)
      (GET ''https://api.pingdom.com/api/3.1/checks?tags=sla'' (''Bearer '' @ apiKey e)) + 1"
proof -
  let ?G = "GET ''https://api.pingdom.com/api/3.1/checks?tags=sla'' (''Bearer '' @ apiKey e)"
  obtain r1 s1 where c: "getPingdomChecks js e (checksDo w) s = (r1, s1)"
    by (rule prod.exhaust)
  have s1: "sent s1 = sent s @ [?G]"
    using getPingdomChecks_sent [of js e "checksDo w" s] c by simp
  show ?thesis
  proof (cases r1)
    case (Inl err)
    with c s1 show ?thesis
      by (simp add: tick_checks_error logPrintf_simps)
  next
    case (Inr cs)
    obtain r2 s2 where m: "getPingdomMainenanceSchedule js e (scheduleDo w) s1 = (r2, s2)"
      by (rule prod.exhaust)
    have s2: "sent s2 = sent s1 @ [GET (maintenanceURL e) (''Bearer '' @ apiKey e)]"
      using getPingdomMainenanceSchedule_sent [of js e "scheduleDo w" s1] m by simp
    show ?thesis
    proof (cases r2)
      case (Inl err)
      with c Inr m s1 s2 show ?thesis
        by (simp add: tick_schedule_error logPrintf_simps checksURL_neq_maintenanceURL)
    next
      case win: (Inr mw)
      consider (same) "fst (checkMaintenanceSchedule mw (getUptimeIds cs))"
        | (drift) "\<not> fst (checkMaintenanceSchedule mw (getUptimeIds cs))"
        by blast
      then show ?thesis
      proof cases
        case same
        from c m same show ?thesis
          unfolding Inr win
          by (simp add: tick_up_to_date getPingdomMainenanceSchedule_sent logPrintf_simps
              s1 s2 checksURL_neq_maintenanceURL)
      next
        case drift
        obtain r3 s3 where u: "updatePingdomMaintenanceSchedule e (clock w)
            (snd (checkMaintenanceSchedule mw (getUptimeIds cs))) (updateDo w) s2 = (r3, s3)"
          by (rule prod.exhaust)
        have s3: "\<exists>body. sent s3 = sent s2 @ [PUT (maintenanceURL e) (''Bearer '' @ apiKey e)
                      ''application/json'' body]"
          using update_sent [of e "clock w" "snd (checkMaintenanceSchedule mw (getUptimeIds cs))"
              "updateDo w" s2] u by simp
        have "tick js e w s = (case r3 of Some err \<Rightarrow>
                logPrintf (CHR 0x09 # ''Pingdom update maintenance schedule: [ERROR] - '' @ Error err) s3
              | None \<Rightarrow> s3)"
          using c m drift u unfolding Inr win by (rule tick_update)
        then have "sent (tick js e w s) = sent s3"
          by (cases r3) (simp_all add: logPrintf_simps)
        with s3 s2 s1 show ?thesis
          by (auto simp: checksURL_neq_maintenanceURL)
      qed
    qed
  qed
qed

lemma pollAPI_loop_append:
  "pollAPI_loop js e (xs @ ys) s = pollAPI_loop js e ys (pollAPI_loop js e xs s)"
  by (induction xs arbitrary: s) simp_all

lemma pollAPI_loop_count:
  "count_list (sent (pollAPI_loop js e ticks s))
      (GET ''https://api.pingdom.com/api/3.1/checks?tags=sla'' (''Bearer '' @ apiKey e)) =
   count_list (sent s)
      (GET ''https://api.pingdom.com/api/3.1/checks?tags=sla'' (''Bearer '' @ apiKey e))
    + length ticks"
proof (induction ticks arbitrary: s)
  case Nil
  show ?case by simp
next
  case (Cons w ws)
  show ?case
    using Cons.IH [of "tick js e w s"] tick_sent_count [of js e w s] by simp
qed

text \<open>
  C3. Once the ticker has started, the loop runs every timer fire: the ticks after a tick
  run on the state that tick left, whatever happened in it, and each fire sends the checks
  request once. A tick whose checks fetch, window fetch or update fails logs one line with
  the operation's name and the error's message, and sends nothing after the failing
  request.
\<close>

theorem C3_tick_errors_abandon_only_the_tick:
  assumes "0 < wrap64 (1000000000 * pollInterval e)"
  shows
    "pollAPI js e (before @ w # after) s =
       Inr (pollAPI_loop js e after (tick js e w (pollAPI_loop js e before s)))
     \<and> count_list (sent (pollAPI_loop js e ticks s))
          (GET ''https://api.pingdom.com/api/3.1/checks?tags=sla'' (''Bearer '' @ apiKey e)) =
        count_list (sent s)
          (GET ''https://api.pingdom.com/api/3.1/checks?tags=sla'' (''Bearer '' @ apiKey e))
        + length ticks
     \<and> (fst (getPingdomChecks js e (checksDo w) s) = Inl err1 \<longrightarrow>
          logged (tick js e w s) =
            logged s @ [Log (CHR 0x09 # ''Pingdom checks: [ERROR] - '' @ Error err1)]
          \<and> sent (tick js e w s) =
            sent s @ [GET ''https://api.pingdom.com/api/3.1/checks?tags=sla'' (''Bearer '' @ apiKey e)])
     \<and> (getPingdomChecks js e (checksDo w) s = (Inr c, s1)
          \<and> fst (getPingdomMainenanceSchedule js e (scheduleDo w) s1) = Inl err2 \<longrightarrow>
          logged (tick js e w s) =
            logged s @ [Log (CHR 0x09 # ''Pingdom maintenance: [ERROR] - '' @ Error err2)]
          \<and> sent (tick js e w s) =
            sent s @ [GET ''https://api.pingdom.com/api/3.1/checks?tags=sla'' (''Bearer '' @ apiKey e),
                      GET (maintenanceURL e) (''Bearer '' @ apiKey e)])
     \<and> (getPingdomChecks js e (checksDo w) s = (Inr c, s1)
          \<and> getPingdomMainenanceSchedule js e (scheduleDo w) s1 = (Inr m, s2)
          \<and> \<not> fst (checkMaintenanceSchedule m (getUptimeIds c))
          \<and> fst (updatePingdomMaintenanceSchedule e (clock w)
                   (snd (checkMaintenanceSchedule m (getUptimeIds c))) (updateDo w) s2) = Some err3 \<longrightarrow>
          logged (tick js e w s) =
            logged s @ [Log (CHR 0x09 # ''Pingdom update maintenance schedule: [ERROR] - '' @ Error err3)]
          \<and> (\<exists>body. sent (tick js e w s) =
            sent s @ [GET ''https://api.pingdom.com/api/3.1/checks?tags=sla'' (''Bearer '' @ apiKey e),
                      GET (maintenanceURL e) (''Bearer '' @ apiKey e),
                      PUT (maintenanceURL e) (''Bearer '' @ apiKey e) ''application/json'' body]))"
proof -
  let ?G = "GET ''https://api.pingdom.com/api/3.1/checks?tags=sla'' (''Bearer '' @ apiKey e)"
  let ?M = "GET (maintenanceURL e) (''Bearer '' @ apiKey e)"
  have loop: "pollAPI js e (before @ w # after) s =
       Inr (pollAPI_loop js e after (tick js e w (pollAPI_loop js e before s)))"
    using assms by (simp add: pollAPI_def pollAPI_loop_append)
  have checks: "logged (tick js e w s) =
            logged s @ [Log (CHR 0x09 # ''Pingdom checks: [ERROR] - '' @ Error err1)]
          \<and> sent (tick js e w s) = sent s @ [?G]"
    if "fst (getPingdomChecks js e (checksDo w) s) = Inl err1"
  proof -
    from that have c: "getPingdomChecks js e (checksDo w) s =
        (Inl err1, snd (getPingdomChecks js e (checksDo w) s))"
      by (simp add: prod_eq_iff)
    show ?thesis
      by (simp add: tick_checks_error [OF c] logPrintf_simps getPingdomChecks_sent
          getPingdomChecks_logged)
  qed
  have s1: "sent s1 = sent s @ [?G]" "logged s1 = logged s"
    if "getPingdomChecks js e (checksDo w) s = (Inr c, s1)"
    using getPingdomChecks_sent [of js e "checksDo w" s]
      getPingdomChecks_logged [of js e "checksDo w" s] that by simp_all
  have window: "logged (tick js e w s) =
            logged s @ [Log (CHR 0x09 # ''Pingdom maintenance: [ERROR] - '' @ Error err2)]
          \<and> sent (tick js e w s) = sent s @ [?G, ?M]"
    if c: "getPingdomChecks js e (checksDo w) s = (Inr c, s1)"
      and "fst (getPingdomMainenanceSchedule js e (scheduleDo w) s1) = Inl err2"
  proof -
    from that(2) have m: "getPingdomMainenanceSchedule js e (scheduleDo w) s1 =
        (Inl err2, snd (getPingdomMainenanceSchedule js e (scheduleDo w) s1))"
      by (simp add: prod_eq_iff)
    show ?thesis
      by (simp add: tick_schedule_error [OF c m] logPrintf_simps
          getPingdomMainenanceSchedule_sent getPingdomMainenanceSchedule_logged s1 [OF c])
  qed
  have update: "logged (tick js e w s) =
            logged s @ [Log (CHR 0x09 # ''Pingdom update maintenance schedule: [ERROR] - '' @ Error err3)]
          \<and> (\<exists>body. sent (tick js e w s) =
                sent s @ [?G, ?M, PUT (maintenanceURL e) (''Bearer '' @ apiKey e) ''application/json'' body])"
    if c: "getPingdomChecks js e (checksDo w) s = (Inr c, s1)"
      and m: "getPingdomMainenanceSchedule js e (scheduleDo w) s1 = (Inr m, s2)"
      and drift: "\<not> fst (checkMaintenanceSchedule m (getUptimeIds c))"
      and failed: "fst (updatePingdomMaintenanceSchedule e (clock w)
                   (snd (checkMaintenanceSchedule m (getUptimeIds c))) (updateDo w) s2) = Some err3"
  proof -
    let ?u = "updatePingdomMaintenanceSchedule e (clock w)
                   (snd (checkMaintenanceSchedule m (getUptimeIds c))) (updateDo w) s2"
    from failed have u: "?u = (Some err3, snd ?u)"
      by (simp add: prod_eq_iff)
    have s2: "sent s2 = sent s1 @ [?M]" "logged s2 = logged s1"
      using getPingdomMainenanceSchedule_sent [of js e "scheduleDo w" s1]
        getPingdomMainenanceSchedule_logged [of js e "scheduleDo w" s1] m by simp_all
    have t: "tick js e w s =
        logPrintf (CHR 0x09 # ''Pingdom update maintenance schedule: [ERROR] - '' @ Error err3) (snd ?u)"
      using tick_update [OF c m drift u] by simp
    show ?thesis
      by (simp add: t logPrintf_simps update_logged_error [OF failed] update_sent s1 [OF c] s2)
  qed
  from loop pollAPI_loop_count [of js e ticks s] checks window update show ?thesis
    by blast
qed

lemma exampleTick_simps:
  "checksDo (exampleTick c m u r) = c" "scheduleDo (exampleTick c m u r) = m"
  "updateDo (exampleTick c m u r) = u" "refetchDo (exampleTick c m u r) = r"
  "clock (exampleTick c m u r) = \<lparr>Year = 2026, Month = 12, Day = 31\<rparr>"
  by (simp_all add: exampleTick_def)

lemma Itoa_status: "Itoa 500 = ''500''" "Itoa 503 = ''503''"
  by (simp_all add: Itoa_def formatBits.simps digitChar_def)

lemma getUptimeIds_loop_map:
  "getUptimeIds_loop cs acc = acc @ map PingdomCheck.ID cs"
  by (induction cs arbitrary: acc) simp_all

lemma getUptimeIds_exampleChecks: "getUptimeIds (exampleChecks ids) = ids"
  by (simp add: getUptimeIds_def exampleChecks_def getUptimeIds_loop_map exampleCheck_def
      comp_def)

lemma length_exampleChecks: "length (PingdomChecks.Checks (exampleChecks ids)) = length ids"
  by (simp add: exampleChecks_def)

lemma getPingdomChecks_status_error:
  "code < 200 \<or> 300 \<le> code \<Longrightarrow>
   getPingdomChecks js e (respond code body) s =
     (Inl (StatusError (''GET Pingdom checks responded with status code: '' @ Itoa code)),
      s\<lparr>sent := sent s @ [GET ''https://api.pingdom.com/api/3.1/checks?tags=sla''
                            (''Bearer '' @ apiKey e)]\<rparr>)"
  by (auto simp: getPingdomChecks_def respond_def statusOK_def Let_def)

lemma getPingdomChecks_transport_error:
  "getPingdomChecks js e (Inl err) s =
     (Inl err,
      s\<lparr>sent := sent s @ [GET ''https://api.pingdom.com/api/3.1/checks?tags=sla''
                            (''Bearer '' @ apiKey e)]\<rparr>)"
  by (simp add: getPingdomChecks_def Let_def)

lemma getPingdomChecks_example_ok:
  "getPingdomChecks (exampleDecoders c m) e (respond 200 ''checks'') s =
     (Inr c,
      s\<lparr>sent := sent s @ [GET ''https://api.pingdom.com/api/3.1/checks?tags=sla''
                            (''Bearer '' @ apiKey e)],
        slaTotal := int (length (PingdomChecks.Checks c))\<rparr>)"
  by (simp add: getPingdomChecks_def respond_def statusOK_def Let_def exampleDecoders_def)

lemma getPingdomMainenanceSchedule_status_error:
  "code < 200 \<or> 300 \<le> code \<Longrightarrow>
   getPingdomMainenanceSchedule js e (respond code body) s =
     (Inl (StatusError (''GET Pingdom maintenance responded with status code: '' @ Itoa code)),
      s\<lparr>sent := sent s @ [GET (maintenanceURL e) (''Bearer '' @ apiKey e)]\<rparr>)"
  by (auto simp: getPingdomMainenanceSchedule_def respond_def statusOK_def Let_def)

lemma getPingdomMainenanceSchedule_transport_error:
  "getPingdomMainenanceSchedule js e (Inl err) s =
     (Inl err,
      s\<lparr>sent := sent s @ [GET (maintenanceURL e) (''Bearer '' @ apiKey e)],
        slaMaintenance := 0\<rparr>)"
  by (simp add: getPingdomMainenanceSchedule_def Let_def)

lemma getPingdomMainenanceSchedule_example_ok:
  "getPingdomMainenanceSchedule (exampleDecoders c m) e (respond 200 ''window'') s =
     (Inr m,
      s\<lparr>sent := sent s @ [GET (maintenanceURL e) (''Bearer '' @ apiKey e)],
        slaMaintenance := int (length (uptimeOf m))\<rparr>)"
  by (simp add: getPingdomMainenanceSchedule_def respond_def statusOK_def Let_def
      exampleDecoders_def)

lemma update_status_error:
  "code < 200 \<or> 300 \<le> code \<Longrightarrow>
   fst (updatePingdomMaintenanceSchedule e t m (respond code body) s) =
     Some (StatusError (''UPDATE Pingdom maintenance responded with status code: '' @ Itoa code))"
  by (auto simp: updatePingdomMaintenanceSchedule_def json_Marshal_def respond_def statusOK_def
      Let_def)

lemma getPingdomChecks_error_gauge:
  "fst (getPingdomChecks js e do s) = Inl err \<Longrightarrow>
   slaTotal (snd (getPingdomChecks js e do s)) =
     (case do of Inl _ \<Rightarrow> slaTotal s
      | Inr resp \<Rightarrow> if statusOK resp then 0 else slaTotal s)"
  by (auto simp: getPingdomChecks_def Let_def split: sum.splits if_splits)

lemma getPingdomMainenanceSchedule_error_gauge:
  "fst (getPingdomMainenanceSchedule js e do s) = Inl err \<Longrightarrow>
   slaMaintenance (snd (getPingdomMainenanceSchedule js e do s)) =
     (case do of Inl _ \<Rightarrow> 0
      | Inr resp \<Rightarrow> if statusOK resp then 0 else slaMaintenance s)"
  by (auto simp: getPingdomMainenanceSchedule_def Let_def split: sum.splits if_splits)

lemma quietTick_state:
  "tick syncedDecoders exampleEnv quietTick (exampleState 0 0) =
     \<lparr>slaTotal = 3, slaMaintenance = 3,
      logged = [Log (CHR 0x09 # ''Maintenance schedule up to date'')],
      sent = [GET ''https://api.pingdom.com/api/3.1/checks?tags=sla'' ''Bearer secret'',
              GET ''https://api.pingdom.com/api/3.1/maintenance/4711'' ''Bearer secret'',
              GET ''https://api.pingdom.com/api/3.1/maintenance/4711'' ''Bearer secret'']\<rparr>"
  by (simp add: tick_def quietTick_def exampleTick_simps syncedDecoders_def
      getPingdomChecks_example_ok getPingdomMainenanceSchedule_example_ok
      getUptimeIds_exampleChecks checkMaintenanceSchedule_def compareSlice_eq
      uptimeOf_exampleWindow logPrintf_def length_exampleChecks maintenanceURL_exampleEnv
      exampleEnv_simps)
     (simp add: exampleState_def)

text \<open>
  C2 says that every failing fetch sets its gauge to 0. The code does so on a decode error
  (both fetches) and on a transport error of the window fetch only. Evaluated: a tick
  that finds three checks and a window of the same three leaves both gauges at 3; in the
  next tick a status 500 on the checks fetch leaves \<open>slaTotal\<close> at 3, and a status 500 on
  the window fetch leaves \<open>slaMaintenance\<close> at 3. On the two functions alone: from gauges
  3 and 3, a status 500 and a transport error on the checks fetch, and a status 500 on the
  window fetch, return the error and the gauges unchanged.
\<close>

theorem C2_status_error_keeps_gauge:
  "tick syncedDecoders exampleEnv quietTick (exampleState 0 0) =
     \<lparr>slaTotal = 3, slaMaintenance = 3,
      logged = [Log (CHR 0x09 # ''Maintenance schedule up to date'')],
      sent = [GET ''https://api.pingdom.com/api/3.1/checks?tags=sla'' ''Bearer secret'',
              GET ''https://api.pingdom.com/api/3.1/maintenance/4711'' ''Bearer secret'',
              GET ''https://api.pingdom.com/api/3.1/maintenance/4711'' ''Bearer secret'']\<rparr>
   \<and> slaTotal (tick syncedDecoders exampleEnv checksFailTick
                  (tick syncedDecoders exampleEnv quietTick (exampleState 0 0))) = 3
   \<and> slaMaintenance (tick syncedDecoders exampleEnv windowStatusTick
                  (tick syncedDecoders exampleEnv quietTick (exampleState 0 0))) = 3
   \<and> getPingdomChecks syncedDecoders exampleEnv (respond 500 []) (exampleState 3 3) =
     (Inl (StatusError ''GET Pingdom checks responded with status code: 500''),
      \<lparr>slaTotal = 3, slaMaintenance = 3, logged = [],
       sent = [GET ''https://api.pingdom.com/api/3.1/checks?tags=sla'' ''Bearer secret'']\<rparr>)
   \<and> getPingdomChecks syncedDecoders exampleEnv (Inl (TransportError ''dial tcp: i/o timeout''))
        (exampleState 3 3) =
     (Inl (TransportError ''dial tcp: i/o timeout''),
      \<lparr>slaTotal = 3, slaMaintenance = 3, logged = [],
       sent = [GET ''https://api.pingdom.com/api/3.1/checks?tags=sla'' ''Bearer secret'']\<rparr>)
   \<and> getPingdomMainenanceSchedule syncedDecoders exampleEnv (respond 500 []) (exampleState 3 3) =
     (Inl (StatusError ''GET Pingdom maintenance responded with status code: 500''),
      \<lparr>slaTotal = 3, slaMaintenance = 3, logged = [],
       sent = [GET ''https://api.pingdom.com/api/3.1/maintenance/4711'' ''Bearer secret'']\<rparr>)"
proof -
  have after_checks: "slaTotal (tick syncedDecoders exampleEnv checksFailTick s) = slaTotal s" for s
    by (simp add: tick_def checksFailTick_def exampleTick_simps getPingdomChecks_status_error
        logPrintf_def)
  have after_window: "slaMaintenance (tick syncedDecoders exampleEnv windowStatusTick s)
                        = slaMaintenance s" for s
    by (simp add: tick_def windowStatusTick_def exampleTick_simps syncedDecoders_def
        getPingdomChecks_example_ok getPingdomMainenanceSchedule_status_error logPrintf_def)
  have direct:
    "getPingdomChecks syncedDecoders exampleEnv (respond 500 []) (exampleState 3 3) =
     (Inl (StatusError ''GET Pingdom checks responded with status code: 500''),
      \<lparr>slaTotal = 3, slaMaintenance = 3, logged = [],
       sent = [GET ''https://api.pingdom.com/api/3.1/checks?tags=sla'' ''Bearer secret'']\<rparr>)"
    "getPingdomChecks syncedDecoders exampleEnv (Inl (TransportError ''dial tcp: i/o timeout''))
        (exampleState 3 3) =
     (Inl (TransportError ''dial tcp: i/o timeout''),
      \<lparr>slaTotal = 3, slaMaintenance = 3, logged = [],
       sent = [GET ''https://api.pingdom.com/api/3.1/checks?tags=sla'' ''Bearer secret'']\<rparr>)"
    "getPingdomMainenanceSchedule syncedDecoders exampleEnv (respond 500 []) (exampleState 3 3) =
     (Inl (StatusError ''GET Pingdom maintenance responded with status code: 500''),
      \<lparr>slaTotal = 3, slaMaintenance = 3, logged = [],
       sent = [GET ''https://api.pingdom.com/api/3.1/maintenance/4711'' ''Bearer secret'']\<rparr>)"
    by (simp_all add: getPingdomChecks_status_error getPingdomChecks_transport_error
        getPingdomMainenanceSchedule_status_error Itoa_status maintenanceURL_exampleEnv
        exampleState_def exampleEnv_simps)
  show ?thesis
    by (simp only: after_checks after_window direct quietTick_state State.simps simp_thms)
qed

theorem C3_witness:
  "0 < wrap64 (1000000000 * pollInterval exampleEnv)
   \<and> logged (tick driftDecoders exampleEnv checksFailTick (exampleState 3 2)) =
       [Log (CHR 0x09 # ''Pingdom checks: [ERROR] - GET Pingdom checks responded with status code: 500'')]
   \<and> logged (tick driftDecoders exampleEnv windowFailTick (exampleState 3 2)) =
       [Log (CHR 0x09 # ''Pingdom maintenance: [ERROR] - dial tcp: i/o timeout'')]
   \<and> logged (tick driftDecoders exampleEnv updateFailTick (exampleState 3 2)) =
       [Log (CHR 0x09 # ''Pingdom update maintenance schedule: [ERROR] - UPDATE Pingdom maintenance responded with status code: 503'')]
   \<and> pollAPI driftDecoders exampleEnv [checksFailTick, windowFailTick, updateFailTick, goodTick]
        (exampleState 0 0) =
       Inr (pollAPI_loop driftDecoders exampleEnv [goodTick]
             (tick driftDecoders exampleEnv updateFailTick
               (pollAPI_loop driftDecoders exampleEnv [checksFailTick, windowFailTick]
                 (exampleState 0 0))))
   \<and> count_list
        (sent (pollAPI_loop driftDecoders exampleEnv
                 [checksFailTick, windowFailTick, updateFailTick, goodTick] (exampleState 0 0)))
        (GET ''https://api.pingdom.com/api/3.1/checks?tags=sla'' ''Bearer secret'') = 4"
proof -
  let ?s = "exampleState 3 2"
  let ?c = "exampleChecks [10, 20, 30]"
  let ?m = "exampleWindow [10, 20] []"
  have ticker: "0 < wrap64 (1000000000 * pollInterval exampleEnv)"
    by (simp add: wrap64_def exampleEnv_simps)
  have c_fail: "fst (getPingdomChecks driftDecoders exampleEnv (checksDo checksFailTick) ?s) =
      Inl (StatusError ''GET Pingdom checks responded with status code: 500'')"
    by (simp add: checksFailTick_def exampleTick_simps getPingdomChecks_status_error Itoa_status)
  have c_ok: "getPingdomChecks driftDecoders exampleEnv (respond 200 ''checks'') ?s =
      (Inr ?c, snd (getPingdomChecks driftDecoders exampleEnv (respond 200 ''checks'') ?s))"
    by (simp add: driftDecoders_def getPingdomChecks_example_ok)
  let ?s1 = "snd (getPingdomChecks driftDecoders exampleEnv (respond 200 ''checks'') ?s)"
  have m_fail: "fst (getPingdomMainenanceSchedule driftDecoders exampleEnv
                      (Inl (TransportError ''dial tcp: i/o timeout'')) ?s1) =
      Inl (TransportError ''dial tcp: i/o timeout'')"
    by (simp add: getPingdomMainenanceSchedule_transport_error)
  have m_ok: "getPingdomMainenanceSchedule driftDecoders exampleEnv (respond 200 ''window'') ?s1 =
      (Inr ?m, snd (getPingdomMainenanceSchedule driftDecoders exampleEnv (respond 200 ''window'') ?s1))"
    by (simp add: driftDecoders_def getPingdomMainenanceSchedule_example_ok)
  let ?s2 = "snd (getPingdomMainenanceSchedule driftDecoders exampleEnv (respond 200 ''window'') ?s1)"
  have drift: "\<not> fst (checkMaintenanceSchedule ?m (getUptimeIds ?c))"
    by (simp add: getUptimeIds_exampleChecks checkMaintenanceSchedule_def compareSlice_eq
        uptimeOf_exampleWindow)
  have u_fail: "fst (updatePingdomMaintenanceSchedule exampleEnv (clock updateFailTick)
                   (snd (checkMaintenanceSchedule ?m (getUptimeIds ?c))) (respond 503 []) ?s2) =
      Some (StatusError ''UPDATE Pingdom maintenance responded with status code: 503'')"
    by (simp add: update_status_error Itoa_status)
  have one: "logged (tick driftDecoders exampleEnv checksFailTick ?s) =
       [Log (CHR 0x09 # ''Pingdom checks: [ERROR] - GET Pingdom checks responded with status code: 500'')]"
    using C3_tick_errors_abandon_only_the_tick [OF ticker,
        where js = driftDecoders and w = checksFailTick and s = ?s
          and ?err1.0 = "StatusError ''GET Pingdom checks responded with status code: 500''"]
      c_fail
    by (simp add: exampleState_simps)
  have two: "logged (tick driftDecoders exampleEnv windowFailTick ?s) =
       [Log (CHR 0x09 # ''Pingdom maintenance: [ERROR] - dial tcp: i/o timeout'')]"
    using C3_tick_errors_abandon_only_the_tick [OF ticker,
        where js = driftDecoders and w = windowFailTick and s = ?s and c = ?c and ?s1.0 = ?s1
          and ?err2.0 = "TransportError ''dial tcp: i/o timeout''"]
      c_ok m_fail
    by (simp add: exampleState_simps windowFailTick_def exampleTick_simps)
  have three: "logged (tick driftDecoders exampleEnv updateFailTick ?s) =
       [Log (CHR 0x09 # ''Pingdom update maintenance schedule: [ERROR] - UPDATE Pingdom maintenance responded with status code: 503'')]"
    using C3_tick_errors_abandon_only_the_tick [OF ticker,
        where js = driftDecoders and w = updateFailTick and s = ?s and c = ?c and ?s1.0 = ?s1
          and m = ?m and ?s2.0 = ?s2
          and ?err3.0 = "StatusError ''UPDATE Pingdom maintenance responded with status code: 503''"]
      c_ok m_ok drift u_fail
    by (simp add: exampleState_simps updateFailTick_def exampleTick_simps)
  have run: "pollAPI driftDecoders exampleEnv [checksFailTick, windowFailTick, updateFailTick, goodTick]
        (exampleState 0 0) =
       Inr (pollAPI_loop driftDecoders exampleEnv [goodTick]
             (tick driftDecoders exampleEnv updateFailTick
               (pollAPI_loop driftDecoders exampleEnv [checksFailTick, windowFailTick]
                 (exampleState 0 0))))"
    using C3_tick_errors_abandon_only_the_tick [OF ticker,
        where js = driftDecoders and before = "[checksFailTick, windowFailTick]"
          and w = updateFailTick and after = "[goodTick]" and s = "exampleState 0 0"]
    by simp
  have fires: "count_list
        (sent (pollAPI_loop driftDecoders exampleEnv
                 [checksFailTick, windowFailTick, updateFailTick, goodTick] (exampleState 0 0)))
        (GET ''https://api.pingdom.com/api/3.1/checks?tags=sla'' ''Bearer secret'') = 4"
    using C3_tick_errors_abandon_only_the_tick [OF ticker,
        where js = driftDecoders
          and ticks = "[checksFailTick, windowFailTick, updateFailTick, goodTick]"
          and s = "exampleState 0 0"]
    by (simp add: exampleState_simps exampleEnv_simps)
  from ticker one two three run fires show ?thesis by blast
qed

lemma getPingdomChecks_decoded:
  "UnmarshalChecks js body = Inr c \<Longrightarrow>
   getPingdomChecks js e (respond 200 body) s =
     (Inr c, snd (getPingdomChecks js e (respond 200 body) s))"
  by (simp add: getPingdomChecks_def respond_def statusOK_def Let_def)

lemma getPingdomMainenanceSchedule_decoded:
  "UnmarshalSchedule js body = Inr m \<Longrightarrow>
   getPingdomMainenanceSchedule js e (respond 200 body) s =
     (Inr m, snd (getPingdomMainenanceSchedule js e (respond 200 body) s))"
  by (simp add: getPingdomMainenanceSchedule_def respond_def statusOK_def Let_def)

theorem C9_witness:
  "sent (tick syncedDecoders exampleEnv goodTick (exampleState 0 0)) =
     [GET ''https://api.pingdom.com/api/3.1/checks?tags=sla'' ''Bearer secret'',
      GET ''https://api.pingdom.com/api/3.1/maintenance/4711'' ''Bearer secret'',
      GET ''https://api.pingdom.com/api/3.1/maintenance/4711'' ''Bearer secret'']
   \<and> logged (tick syncedDecoders exampleEnv goodTick (exampleState 0 0)) =
     [Log (CHR 0x09 # ''Maintenance schedule up to date'')]
   \<and> slaTotal (tick syncedDecoders exampleEnv goodTick (exampleState 0 0)) = 3
   \<and> slaMaintenance (tick syncedDecoders exampleEnv goodTick (exampleState 0 0)) = 3
   \<and> slaMaintenance (tick refreshDecoders exampleEnv refreshTick (exampleState 0 0)) = 4
   \<and> logged (tick refreshDecoders exampleEnv refreshTick (exampleState 0 0)) =
     [Log (CHR 0x09 # ''Maintenance schedule up to date'')]
   \<and> slaMaintenance (tick syncedDecoders exampleEnv refetchTransportTick (exampleState 0 0)) = 0
   \<and> logged (tick syncedDecoders exampleEnv refetchTransportTick (exampleState 0 0)) =
     [Log (CHR 0x09 # ''Maintenance schedule up to date'')]"
proof -
  let ?s = "exampleState 0 0"
  let ?c = "exampleChecks [10, 20, 30]"
  let ?m = "exampleWindow [10, 20, 30] []"
  have same: "fst (checkMaintenanceSchedule ?m (getUptimeIds ?c))"
    by (simp add: getUptimeIds_exampleChecks checkMaintenanceSchedule_def compareSlice_eq
        uptimeOf_exampleWindow)
  have synced: "UnmarshalChecks syncedDecoders ''checks'' = Inr ?c"
    "UnmarshalSchedule syncedDecoders ''window'' = Inr ?m"
    by (simp_all add: syncedDecoders_def exampleDecoders_def)
  have grown: "UnmarshalChecks refreshDecoders ''checks'' = Inr ?c"
    "UnmarshalSchedule refreshDecoders ''window'' = Inr ?m"
    "UnmarshalSchedule refreshDecoders ''grown'' = Inr (exampleWindow [10, 20, 30, 40] [])"
    by (simp_all add: refreshDecoders_def syncedDecoders_def exampleDecoders_def)
  have status: "sent (tick syncedDecoders exampleEnv goodTick ?s) =
     [GET ''https://api.pingdom.com/api/3.1/checks?tags=sla'' ''Bearer secret'',
      GET ''https://api.pingdom.com/api/3.1/maintenance/4711'' ''Bearer secret'',
      GET ''https://api.pingdom.com/api/3.1/maintenance/4711'' ''Bearer secret'']
   \<and> logged (tick syncedDecoders exampleEnv goodTick ?s) =
     [Log (CHR 0x09 # ''Maintenance schedule up to date'')]
   \<and> slaTotal (tick syncedDecoders exampleEnv goodTick ?s) = 3
   \<and> slaMaintenance (tick syncedDecoders exampleEnv goodTick ?s) = 3"
  proof -
    let ?s1 = "snd (getPingdomChecks syncedDecoders exampleEnv (respond 200 ''checks'') ?s)"
    have c: "getPingdomChecks syncedDecoders exampleEnv (checksDo goodTick) ?s = (Inr ?c, ?s1)"
      unfolding goodTick_def exampleTick_simps by (rule getPingdomChecks_decoded [OF synced(1)])
    have m: "getPingdomMainenanceSchedule syncedDecoders exampleEnv (scheduleDo goodTick) ?s1 =
        (Inr ?m, snd (getPingdomMainenanceSchedule syncedDecoders exampleEnv
                        (respond 200 ''window'') ?s1))"
      unfolding goodTick_def exampleTick_simps
      by (rule getPingdomMainenanceSchedule_decoded [OF synced(2)])
    have r: "refetchDo goodTick = Inr \<lparr>StatusCode = 500, BodyData = [], BodyErr = None\<rparr>"
      by (simp add: goodTick_def exampleTick_simps respond_def)
    show ?thesis
      using C9_up_to_date_tick [OF c m same, THEN conjunct1]
        C9_up_to_date_tick [OF c m same, THEN conjunct2, THEN conjunct1]
        C9_up_to_date_tick [OF c m same, THEN conjunct2, THEN conjunct2, THEN conjunct1]
        C9_up_to_date_tick [OF c m same, THEN conjunct2, THEN conjunct2, THEN conjunct2,
          THEN conjunct1]
      by (simp add: r statusOK_def exampleState_simps exampleEnv_simps
          maintenanceURL_exampleEnv length_exampleChecks uptimeOf_exampleWindow)
  qed
  have refreshed: "slaMaintenance (tick refreshDecoders exampleEnv refreshTick ?s) = 4
   \<and> logged (tick refreshDecoders exampleEnv refreshTick ?s) =
     [Log (CHR 0x09 # ''Maintenance schedule up to date'')]"
  proof -
    let ?s1 = "snd (getPingdomChecks refreshDecoders exampleEnv (respond 200 ''checks'') ?s)"
    have c: "getPingdomChecks refreshDecoders exampleEnv (checksDo refreshTick) ?s = (Inr ?c, ?s1)"
      unfolding refreshTick_def exampleTick_simps by (rule getPingdomChecks_decoded [OF grown(1)])
    have m: "getPingdomMainenanceSchedule refreshDecoders exampleEnv (scheduleDo refreshTick) ?s1 =
        (Inr ?m, snd (getPingdomMainenanceSchedule refreshDecoders exampleEnv
                        (respond 200 ''window'') ?s1))"
      unfolding refreshTick_def exampleTick_simps
      by (rule getPingdomMainenanceSchedule_decoded [OF grown(2)])
    have r: "refetchDo refreshTick = Inr \<lparr>StatusCode = 200, BodyData = ''grown'', BodyErr = None\<rparr>"
      by (simp add: refreshTick_def exampleTick_simps respond_def)
    show ?thesis
      using C9_up_to_date_tick [OF c m same, THEN conjunct1]
        C9_up_to_date_tick [OF c m same, THEN conjunct2, THEN conjunct1]
        C9_up_to_date_tick [OF c m same, THEN conjunct2, THEN conjunct2, THEN conjunct1]
        C9_up_to_date_tick [OF c m same, THEN conjunct2, THEN conjunct2, THEN conjunct2,
          THEN conjunct1]
      by (simp add: r statusOK_def grown(3) exampleState_simps uptimeOf_exampleWindow)
  qed
  have transport: "slaMaintenance (tick syncedDecoders exampleEnv refetchTransportTick ?s) = 0
   \<and> logged (tick syncedDecoders exampleEnv refetchTransportTick ?s) =
     [Log (CHR 0x09 # ''Maintenance schedule up to date'')]"
  proof -
    let ?s1 = "snd (getPingdomChecks syncedDecoders exampleEnv (respond 200 ''checks'') ?s)"
    have c: "getPingdomChecks syncedDecoders exampleEnv (checksDo refetchTransportTick) ?s =
        (Inr ?c, ?s1)"
      unfolding refetchTransportTick_def exampleTick_simps by (rule getPingdomChecks_decoded [OF synced(1)])
    have m: "getPingdomMainenanceSchedule syncedDecoders exampleEnv
               (scheduleDo refetchTransportTick) ?s1 =
        (Inr ?m, snd (getPingdomMainenanceSchedule syncedDecoders exampleEnv
                        (respond 200 ''window'') ?s1))"
      unfolding refetchTransportTick_def exampleTick_simps
      by (rule getPingdomMainenanceSchedule_decoded [OF synced(2)])
    have r: "refetchDo refetchTransportTick = Inl (TransportError ''dial tcp: i/o timeout'')"
      by (simp add: refetchTransportTick_def exampleTick_simps)
    show ?thesis
      using C9_up_to_date_tick [OF c m same, THEN conjunct1]
        C9_up_to_date_tick [OF c m same, THEN conjunct2, THEN conjunct1]
        C9_up_to_date_tick [OF c m same, THEN conjunct2, THEN conjunct2, THEN conjunct1]
        C9_up_to_date_tick [OF c m same, THEN conjunct2, THEN conjunct2, THEN conjunct2,
          THEN conjunct1]
      by (simp add: r exampleState_simps)
  qed
  from status refreshed transport show ?thesis by blast
qed

section \<open>Properties of the bootstrap\<close>

subsection \<open>The decimal conversions\<close>

lemma digit_cases:
  fixes d :: nat
  assumes "d < 10"
  shows "d = 0 \<or> d = 1 \<or> d = 2 \<or> d = 3 \<or> d = 4 \<or> d = 5 \<or> d = 6 \<or> d = 7 \<or> d = 8 \<or> d = 9"
  using assms by arith

lemma digitChar_isDigit: "d < 10 \<Longrightarrow> isDigit (digitChar d)"
  unfolding isDigit_def digitChar_def by (intro nth_mem) simp

lemma digitVal_digitChar: "d < 10 \<Longrightarrow> digitVal (digitChar d) = int d"
  by (drule digit_cases) (elim disjE; simp add: digitVal_def digitChar_def)

lemma digitChar_not_sign: "d < 10 \<Longrightarrow> digitChar d \<noteq> CHR ''-'' \<and> digitChar d \<noteq> CHR ''+''"
  by (drule digit_cases) (elim disjE; simp add: digitChar_def)

lemma formatBits_decimal:
  "formatBits u \<noteq> [] \<and> list_all isDigit (formatBits u) \<and> parseDigits (formatBits u) = int u
     \<and> hd (formatBits u) \<noteq> CHR ''-'' \<and> hd (formatBits u) \<noteq> CHR ''+''"
proof (induction u rule: formatBits.induct)
  case (1 u)
  consider (one) "u < 10" | (more) "\<not> u < 10"
    by blast
  then show ?case
  proof cases
    case one
    then have "formatBits u = [digitChar u]" by (simp add: formatBits.simps [of u])
    with one show ?thesis
      by (simp add: digitChar_isDigit digitVal_digitChar digitChar_not_sign parseDigits_def)
  next
    case more
    have last: "u mod 10 < 10" by simp
    from more have eq: "formatBits u = formatBits (u div 10) @ [digitChar (u mod 10)]"
      by (simp add: formatBits.simps [of u])
    from 1 [OF more] have ih: "formatBits (u div 10) \<noteq> []"
      "list_all isDigit (formatBits (u div 10))"
      "parseDigits (formatBits (u div 10)) = int (u div 10)"
      "hd (formatBits (u div 10)) \<noteq> CHR ''-''" "hd (formatBits (u div 10)) \<noteq> CHR ''+''"
      by simp_all
    have "parseDigits (formatBits u) = int (u div 10) * 10 + int (u mod 10)"
      using ih(3) by (simp add: eq parseDigits_def digitVal_digitChar [OF last])
    also have "\<dots> = int u"
      by (simp add: zdiv_int zmod_int)
    finally have value_ok: "parseDigits (formatBits u) = int u" .
    have nonempty: "formatBits u \<noteq> []"
      by (simp add: eq)
    have digits: "list_all isDigit (formatBits u)"
      using ih(2) by (simp add: eq digitChar_isDigit [OF last])
    have "hd (formatBits u) = hd (formatBits (u div 10))"
      using ih(1) by (simp add: eq)
    with nonempty digits value_ok ih(4,5) show ?thesis
      by simp
  qed
qed

text \<open>
  The two models of the decimal conversions agree: \<open>strconv.Atoi\<close> reads back what
  \<open>strconv.Itoa\<close> writes, for every value of the 64-bit range.
\<close>

lemma Atoi_Itoa:
  assumes "- (2 ^ 63) \<le> i" "i \<le> 2 ^ 63 - 1"
  shows "Atoi (Itoa i) = Some i"
proof -
  consider (neg) "i < 0" | (nonneg) "0 \<le> i"
    by linarith
  then show ?thesis
  proof cases
    case neg
    let ?ds = "formatBits (nat (- i))"
    have "?ds \<noteq> []" "list_all isDigit ?ds" "parseDigits ?ds = - i"
      using formatBits_decimal [of "nat (- i)"] neg by simp_all
    with neg assms show ?thesis
      by (simp add: Atoi_def Itoa_def Let_def)
  next
    case nonneg
    let ?ds = "formatBits (nat i)"
    have ds: "?ds \<noteq> []" "list_all isDigit ?ds" "parseDigits ?ds = i"
      "hd ?ds \<noteq> CHR ''-''" "hd ?ds \<noteq> CHR ''+''"
      using formatBits_decimal [of "nat i"] nonneg by simp_all
    then obtain c cs where cs: "?ds = c # cs" "c \<noteq> CHR ''-''" "c \<noteq> CHR ''+''"
      by (cases ?ds) simp_all
    have "list_all isDigit (c # cs)" "parseDigits (c # cs) = i"
      using ds(2,3) unfolding cs(1) by simp_all
    with nonneg assms cs show ?thesis
      by (simp add: Atoi_def Itoa_def Let_def)
  qed
qed

subsection \<open>\<open>newEnv\<close> on the environment\<close>

lemma Getenv_unset: "environ key = None \<Longrightarrow> Atoi (Getenv environ key) = None"
  by (simp add: Getenv_def Atoi_def)

lemma Atoi_examples:
  "Atoi ''-5'' = Some (- 5)" "Atoi ''42'' = Some 42" "Atoi ''abc'' = None" "Atoi [] = None"
  by (simp_all add: Atoi_def parseDigits_def digitVal_def isDigit_def)

lemma Itoa_more: "Itoa (- 5) = ''-5''" "Itoa 300 = ''300''" "Itoa 42 = ''42''"
  by (simp_all add: Itoa_def formatBits.simps digitChar_def)

text \<open>
  C8, as stated, fails: with \<open>API_KEY=secret\<close> and \<open>MAINTENANCE_ID=-5\<close> the service starts,
  with maintenance ID \<open>-5\<close>, which is not a positive integer.
\<close>

theorem C8_counterexample:
  "main_newEnv negativeIdEnviron =
     Inr (\<lparr>apiKey = ''secret'', maintenanceID = - 5, pollInterval = 300, metricsPort = ''9600''\<rparr>,
          [Log (CHR 0x09 # ''ps-pingdom-maintenance service started...''),
           Log (CHR 0x09 # ''Maintenance ID: -5'' @ CHR 0x09 # ''Poll Interval: 300''
                @ CHR 0x09 # ''Metrics port: 9600'' @ [CHR 0x0A, CHR 0x0A])])
   \<and> \<not> (0 :: int) < - 5"
  by (simp add: main_newEnv_def newEnv_def getenvInt_def Getenv_def negativeIdEnviron_def
      Atoi_examples Itoa_more)

text \<open>
  C8, amended. Startup is fatal when \<open>API_KEY\<close> is empty or unset, and when
  \<open>MAINTENANCE_ID\<close> is unset, not an integer, or zero; any other integer, a negative one
  too, is taken as the maintenance ID. The poll interval is 300 when \<open>POLL_INTERVAL\<close> is
  unset, not an integer, or zero, and the parsed value otherwise; the metrics port is
  \<open>9600\<close> when \<open>METRICS_PORT\<close> is empty or unset.
\<close>

theorem C8_newEnv_contract:
  "(Getenv environ ''API_KEY'' = [] \<longrightarrow>
      main_newEnv environ = Inl (Fatalf ''Could not parse env API_KEY''))
   \<and> (Getenv environ ''API_KEY'' \<noteq> []
        \<and> (Atoi (Getenv environ ''MAINTENANCE_ID'') = None
            \<or> Atoi (Getenv environ ''MAINTENANCE_ID'') = Some 0) \<longrightarrow>
      main_newEnv environ = Inl (Fatalf ''Could not parse env MAINTENANCE_ID''))
   \<and> (Atoi (Getenv environ ''MAINTENANCE_ID'') = None
        \<or> Atoi (Getenv environ ''MAINTENANCE_ID'') = Some 0 \<longrightarrow>
      isl (main_newEnv environ))
   \<and> (Getenv environ ''API_KEY'' \<noteq> []
        \<and> Atoi (Getenv environ ''MAINTENANCE_ID'') = Some n \<and> n \<noteq> 0 \<longrightarrow>
      map_sum id fst (main_newEnv environ) =
        Inr \<lparr>apiKey = Getenv environ ''API_KEY'',
             maintenanceID = n,
             pollInterval =
               (case Atoi (Getenv environ ''POLL_INTERVAL'') of
                  None \<Rightarrow> 300 | Some p \<Rightarrow> if p = 0 then 300 else p),
             metricsPort =
               (if Getenv environ ''METRICS_PORT'' = [] then ''9600''
                else Getenv environ ''METRICS_PORT'')\<rparr>)
   \<and> (environ ''API_KEY'' = None \<longrightarrow> Getenv environ ''API_KEY'' = [])
   \<and> (environ ''MAINTENANCE_ID'' = None \<longrightarrow> Atoi (Getenv environ ''MAINTENANCE_ID'') = None)
   \<and> (environ ''POLL_INTERVAL'' = None \<longrightarrow> Atoi (Getenv environ ''POLL_INTERVAL'') = None)
   \<and> (environ ''METRICS_PORT'' = None \<longrightarrow> Getenv environ ''METRICS_PORT'' = [])"
proof -
  have unset: "Getenv environ key = []" if "environ key = None" for key
    using that by (simp add: Getenv_def)
  have "main_newEnv environ = Inl (Fatalf ''Could not parse env API_KEY'')"
    if "Getenv environ ''API_KEY'' = []"
    using that by (simp add: main_newEnv_def newEnv_def)
  moreover have "main_newEnv environ = Inl (Fatalf ''Could not parse env MAINTENANCE_ID'')"
    if "Getenv environ ''API_KEY'' \<noteq> []"
      and "Atoi (Getenv environ ''MAINTENANCE_ID'') = None
            \<or> Atoi (Getenv environ ''MAINTENANCE_ID'') = Some 0"
    using that by (auto simp: main_newEnv_def newEnv_def getenvInt_def)
  moreover have "isl (main_newEnv environ)"
    if "Atoi (Getenv environ ''MAINTENANCE_ID'') = None
          \<or> Atoi (Getenv environ ''MAINTENANCE_ID'') = Some 0"
    using that by (auto simp: main_newEnv_def newEnv_def getenvInt_def)
  moreover have "map_sum id fst (main_newEnv environ) =
        Inr \<lparr>apiKey = Getenv environ ''API_KEY'',
             maintenanceID = n,
             pollInterval =
               (case Atoi (Getenv environ ''POLL_INTERVAL'') of
                  None \<Rightarrow> 300 | Some p \<Rightarrow> if p = 0 then 300 else p),
             metricsPort =
               (if Getenv environ ''METRICS_PORT'' = [] then ''9600''
                else Getenv environ ''METRICS_PORT'')\<rparr>"
    if "Getenv environ ''API_KEY'' \<noteq> []"
      and "Atoi (Getenv environ ''MAINTENANCE_ID'') = Some n" and "n \<noteq> 0"
    using that
    by (simp add: main_newEnv_def newEnv_def getenvInt_def Let_def split: option.splits)
  ultimately show ?thesis
    using unset Getenv_unset by blast
qed

theorem C8_witness:
  "main_newEnv (exampleEnviron [] ''42'') = Inl (Fatalf ''Could not parse env API_KEY'')
   \<and> main_newEnv (exampleEnviron ''secret'' ''abc'') = Inl (Fatalf ''Could not parse env MAINTENANCE_ID'')
   \<and> map_sum id fst (main_newEnv (exampleEnviron ''secret'' ''42'')) =
       Inr \<lparr>apiKey = ''secret'', maintenanceID = 42, pollInterval = 300, metricsPort = ''9600''\<rparr>"
proof -
  have get: "Getenv (exampleEnviron k i) ''API_KEY'' = k"
    "Getenv (exampleEnviron k i) ''MAINTENANCE_ID'' = i"
    "Getenv (exampleEnviron k i) ''POLL_INTERVAL'' = []"
    "Getenv (exampleEnviron k i) ''METRICS_PORT'' = []" for k i
    by (simp_all add: Getenv_def exampleEnviron_def)
  have "main_newEnv (exampleEnviron [] ''42'') = Inl (Fatalf ''Could not parse env API_KEY'')"
    using C8_newEnv_contract [of "exampleEnviron [] ''42''"] by (simp add: get)
  moreover have "main_newEnv (exampleEnviron ''secret'' ''abc'')
                   = Inl (Fatalf ''Could not parse env MAINTENANCE_ID'')"
    using C8_newEnv_contract [of "exampleEnviron ''secret'' ''abc''"]
    by (simp add: get Atoi_examples)
  moreover have "map_sum id fst (main_newEnv (exampleEnviron ''secret'' ''42'')) =
       Inr \<lparr>apiKey = ''secret'', maintenanceID = 42, pollInterval = 300, metricsPort = ''9600''\<rparr>"
    using C8_newEnv_contract [of "exampleEnviron ''secret'' ''42''" 42]
    by (simp add: get Atoi_examples)
  ultimately show ?thesis by simp
qed

end
